theory Spec2Isabelle
  imports Complex_Main "HOL-Library.AList" "HOL-Library.Multiset"
begin

section \<open>JavaScript strings\<close>

text \<open>
  Strings are lists of characters, and a character is a code unit below \<open>U+0100\<close>:
  the embedding covers the texts of ASCII and Latin-1. On these,
  \<open>String.prototype.trim\<close> and the class \<open>\s\<close> strip the ASCII white space and the
  no-break space; \<open>toLowerCase\<close> maps \<open>A\<close> to \<open>Z\<close> and \<open>U+00C0\<close> to \<open>U+00DE\<close>, but
  the multiplication sign, to the letters 32 places on; and a regular expression that
  ignores case compares the upper case of two characters, which is 32 places before
  for \<open>a\<close> to \<open>z\<close> and \<open>U+00E0\<close> to \<open>U+00FE\<close>, but the division sign, and the
  character itself otherwise (the upper case of the micro sign and of \<open>U+00FF\<close> is
  beyond Latin-1 and that of no other character of Latin-1; the sharp s has none of
  one character).
\<close>

definition is_space :: "char \<Rightarrow> bool" where
  "is_space c \<longleftrightarrow> c \<in> set [CHR 0x09, CHR 0x0A, CHR 0x0B, CHR 0x0C, CHR 0x0D, CHR 0x20, CHR 0xA0]"

definition trim :: "string \<Rightarrow> string" where
  "trim s = rev (dropWhile is_space (rev (dropWhile is_space s)))"

definition toLowerCase_char :: "char \<Rightarrow> char" where
  "toLowerCase_char c =
     (let n = (of_char c :: nat)
      in if (65 \<le> n \<and> n \<le> 90) \<or> (192 \<le> n \<and> n \<le> 222 \<and> n \<noteq> 215)
         then char_of (n + 32) else c)"

definition canonicalize :: "char \<Rightarrow> char" where
  "canonicalize c =
     (let n = (of_char c :: nat)
      in if (97 \<le> n \<and> n \<le> 122) \<or> (224 \<le> n \<and> n \<le> 254 \<and> n \<noteq> 247)
         then char_of (n - 32) else c)"

definition toLowerCase :: "string \<Rightarrow> string" where
  "toLowerCase s = map toLowerCase_char s"

text \<open>\<open>s.includes(p)\<close>: \<open>p\<close> occurs in \<open>s\<close> as a contiguous substring.\<close>

fun starts_with :: "string \<Rightarrow> string \<Rightarrow> bool" where
  "starts_with [] s = True"
| "starts_with (p # ps) [] = False"
| "starts_with (p # ps) (c # cs) = (p = c \<and> starts_with ps cs)"

fun str_includes :: "string \<Rightarrow> string \<Rightarrow> bool" where
  "str_includes [] p = (p = [])"
| "str_includes (c # cs) p = (starts_with p (c # cs) \<or> str_includes cs p)"

text \<open>\<open>s.split(d)[0]\<close> for a one-character \<open>d\<close>: the text before the first \<open>d\<close>.\<close>

definition split_first :: "char \<Rightarrow> string \<Rightarrow> string" where
  "split_first d s = takeWhile (\<lambda>c. c \<noteq> d) s"

text \<open>
  \<open>s.split(/\s+/)\<close>: the pieces between maximal runs of white space. White space at
  either end of the string gives an empty piece there, and the empty string gives one
  empty piece.
\<close>

function split_ws :: "string \<Rightarrow> string \<Rightarrow> string list" where
  "split_ws cur [] = [cur]"
| "split_ws cur (c # cs) =
     (if is_space c then cur # split_ws [] (dropWhile is_space cs)
      else split_ws (cur @ [c]) cs)"
  by pat_completeness auto
termination
  by (relation "measure (\<lambda>(cur, s). length s)")
     (auto simp: less_Suc_eq_le length_dropWhile_le)

text \<open>
  \<open>parseInt(s)\<close> with no radix: leading white space is skipped, a sign is read, the
  prefix \<open>0x\<close> selects radix 16, and the longest run of digits is the value. With no
  digit the result is \<open>NaN\<close>, here \<open>None\<close>. The value is exact, as JavaScript's is below
  \<open>2^53\<close>.
\<close>

definition digit_val :: "char \<Rightarrow> nat option" where
  "digit_val c =
     map_of (zip ''0123456789abcdef'' [0 ..< 16] @ zip ''ABCDEF'' [10 ..< 16]) c"

definition is_digit :: "nat \<Rightarrow> char \<Rightarrow> bool" where
  "is_digit radix c \<longleftrightarrow> (case digit_val c of Some v \<Rightarrow> v < radix | None \<Rightarrow> False)"

fun digits_value :: "nat \<Rightarrow> nat \<Rightarrow> string \<Rightarrow> nat" where
  "digits_value radix acc [] = acc"
| "digits_value radix acc (c # cs) =
     (case digit_val c of
        Some v \<Rightarrow> digits_value radix (acc * radix + v) cs
      | None \<Rightarrow> acc)"

definition parseInt :: "string \<Rightarrow> int option" where
  "parseInt s =
     (let t = dropWhile is_space s;
          neg = (take 1 t = ''-'');
          u = (if take 1 t = ''-'' \<or> take 1 t = ''+'' then drop 1 t else t);
          hex = (take 2 u = ''0x'' \<or> take 2 u = ''0X'');
          radix = (if hex then 16 else 10);
          ds = takeWhile (is_digit radix) (if hex then drop 2 u else u)
      in if ds = [] then None
         else Some ((if neg then - 1 else 1) * int (digits_value radix 0 ds)))"

section \<open>Regular expressions built from a literal word\<close>

text \<open>
  \<open>applyWordReplacements\<close> escapes every metacharacter of the word, so both of its
  regular expressions match the word literally, ignoring case (flag \<open>i\<close>), at every
  place of the text (flag \<open>g\<close>). Without the flag \<open>u\<close> the word class \<open>\w\<close> is
  \<open>[A-Za-z0-9_]\<close>, and \<open>\b\<close> holds between two places of which exactly one is a word
  character; the ends of the text count as no word character.
\<close>

definition is_word_char :: "char \<Rightarrow> bool" where
  "is_word_char c \<longleftrightarrow>
     c \<in> set (''abcdefghijklmnopqrstuvwxyz'' @ ''ABCDEFGHIJKLMNOPQRSTUVWXYZ'' @ ''0123456789_'')"

fun ci_starts_with :: "string \<Rightarrow> string \<Rightarrow> bool" where
  "ci_starts_with [] s = True"
| "ci_starts_with (p # ps) [] = False"
| "ci_starts_with (p # ps) (c # cs) =
     (canonicalize p = canonicalize c \<and> ci_starts_with ps cs)"

definition word_at :: "string \<Rightarrow> bool" where
  "word_at s = (case s of [] \<Rightarrow> False | c # _ \<Rightarrow> is_word_char c)"

text \<open>
  A place in the text is \<open>pre\<close>, the text before it reversed, and \<open>post\<close>, the text
  from it on.
  \<open>loose_match w\<close> is the regular expression \<open>w\<close> at a place, \<open>boundary_match w\<close> is
  \<open>\bw\b\<close>.
\<close>

definition word_boundary :: "string \<Rightarrow> string \<Rightarrow> bool" where
  "word_boundary pre post \<longleftrightarrow> word_at pre \<noteq> word_at post"

definition loose_match :: "string \<Rightarrow> string \<Rightarrow> string \<Rightarrow> bool" where
  "loose_match w pre post \<longleftrightarrow> ci_starts_with w post"

definition boundary_match :: "string \<Rightarrow> string \<Rightarrow> string \<Rightarrow> bool" where
  "boundary_match w pre post \<longleftrightarrow>
     ci_starts_with w post \<and> word_boundary pre post \<and>
     word_boundary (rev (take (length w) post) @ pre) (drop (length w) post)"

text \<open>\<open>regex.test(text)\<close>: there is a match at some place.\<close>

fun regex_test :: "(string \<Rightarrow> string \<Rightarrow> bool) \<Rightarrow> string \<Rightarrow> string \<Rightarrow> bool" where
  "regex_test m pre [] = m pre []"
| "regex_test m pre (c # cs) = (m pre (c # cs) \<or> regex_test m (c # pre) cs)"

text \<open>
  The replacement text of \<open>String.prototype.replace\<close> is a template: \<open>$$\<close> is a
  dollar sign, \<open>$&\<close> the matched text, a dollar sign and a backquote the text
  before the match, a dollar sign and a quote the text after it. The regular
  expressions have no group, so any other \<open>$\<close> stands for itself.
\<close>

fun get_substitution :: "string \<Rightarrow> string \<Rightarrow> string \<Rightarrow> string \<Rightarrow> string" where
  "get_substitution matched pre post [] = []"
| "get_substitution matched pre post [c] = [c]"
| "get_substitution matched pre post (c # d # r) =
     (if c = CHR ''$'' \<and> d = CHR ''$'' then CHR ''$'' # get_substitution matched pre post r
      else if c = CHR ''$'' \<and> d = CHR ''&'' then matched @ get_substitution matched pre post r
      else if c = CHR ''$'' \<and> d = CHR 0x60 then pre @ get_substitution matched pre post r
      else if c = CHR ''$'' \<and> d = CHR 0x27 then post @ get_substitution matched pre post r
      else c # get_substitution matched pre post (d # r))"

text \<open>
  \<open>text.replace(regex, replacement)\<close> for a global regular expression that matches
  the word \<open>w\<close> where \<open>m\<close> holds: the matches are taken from left to right without
  overlap, and the text between them is kept. An empty word matches before every
  character and at the end.
\<close>

function replace_all :: "(string \<Rightarrow> string \<Rightarrow> bool) \<Rightarrow> string \<Rightarrow> string \<Rightarrow> string \<Rightarrow> string \<Rightarrow> string" where
  "replace_all m w replacement pre [] =
     (if m pre [] then get_substitution [] (rev pre) [] replacement else [])"
| "replace_all m w replacement pre (c # cs) =
     (if m pre (c # cs) then
        get_substitution (take (length w) (c # cs)) (rev pre) (drop (length w) (c # cs)) replacement @
        (if w = [] then c # replace_all m w replacement (c # pre) cs
         else replace_all m w replacement
                (rev (take (length w) (c # cs)) @ pre) (drop (length w - 1) cs))
      else c # replace_all m w replacement (c # pre) cs)"
  by pat_completeness auto
termination
  by (relation "measure (\<lambda>(m, w, replacement, pre, s). length s)") auto

section \<open>The dictionary post-processor\<close>

text \<open>
  A dictionary entry is read through its properties: under a key it has nothing
  (\<open>undefined\<close> or \<open>null\<close>), a string, or a value that is no string (a number, a truth
  value, an object, a member inherited from the prototype). \<open>en\<close> is the canonical
  English term, the other keys are the localized forms. An element of the dictionary
  that is \<open>null\<close> has no properties and reading one throws: it is the entry with a
  value that is no string under every key.
\<close>

datatype jsval = JString string | JOther

type_synonym entry = "string \<rightharpoonup> jsval"

text \<open>
  \<open>entry[k]?.trim()\<close>: \<open>undefined\<close> when there is nothing, the trimmed string for a
  string, and a \<open>TypeError\<close> for any other value, which has no \<open>trim\<close>.
\<close>

datatype trimmed = Throws | Undefined | Trimmed string

definition optional_trim :: "jsval option \<Rightarrow> trimmed" where
  "optional_trim v =
     (case v of None \<Rightarrow> Undefined | Some (JString s) \<Rightarrow> Trimmed (trim s) | Some JOther \<Rightarrow> Throws)"

definition truthy :: "trimmed \<Rightarrow> bool" where
  "truthy v = (case v of Trimmed s \<Rightarrow> s \<noteq> [] | _ \<Rightarrow> False)"

text \<open>
  The callback of the \<open>filter\<close>: both fields are read before they are tested;
  \<open>None\<close> when reading one of them throws.
\<close>

definition valid_entry :: "string \<Rightarrow> entry \<Rightarrow> bool option" where
  "valid_entry targetLang e =
     (case optional_trim (e targetLang) of
        Throws \<Rightarrow> None
      | hasTargetLang \<Rightarrow>
          (case optional_trim (e ''en'') of
             Throws \<Rightarrow> None
           | hasEnglish \<Rightarrow> Some (truthy hasTargetLang \<and> truthy hasEnglish)))"

text \<open>\<open>excludedWords.filter(...)\<close>: \<open>None\<close> when the callback throws at some entry.\<close>

fun filter_valid :: "string \<Rightarrow> entry list \<Rightarrow> entry list option" where
  "filter_valid targetLang [] = Some []"
| "filter_valid targetLang (e # es) =
     (case valid_entry targetLang e of
        None \<Rightarrow> None
      | Some keep \<Rightarrow>
          (case filter_valid targetLang es of
             None \<Rightarrow> None
           | Some validEntries \<Rightarrow> Some (if keep then e # validEntries else validEntries)))"

text \<open>\<open>entry[k].trim().length\<close>, the key of the sort; the entries sorted are valid.\<close>

definition trimmed_length :: "string \<Rightarrow> entry \<Rightarrow> nat" where
  "trimmed_length k e = (case e k of Some (JString v) \<Rightarrow> length (trim v) | _ \<Rightarrow> 0)"

text \<open>
  \<open>Array.prototype.sort\<close> with the comparator \<open>b.length - a.length\<close>: a stable sort,
  longest first. Entries of the same length keep their order.
\<close>

fun insert_desc :: "('a \<Rightarrow> nat) \<Rightarrow> 'a \<Rightarrow> 'a list \<Rightarrow> 'a list" where
  "insert_desc f x [] = [x]"
| "insert_desc f x (y # ys) = (if f x < f y then y # insert_desc f x ys else x # y # ys)"

fun sort_desc :: "('a \<Rightarrow> nat) \<Rightarrow> 'a list \<Rightarrow> 'a list" where
  "sort_desc f [] = []"
| "sort_desc f (x # xs) = insert_desc f x (sort_desc f xs)"

text \<open>The body of the \<open>forEach\<close>: one entry applied to the text.\<close>

definition replace_word :: "string \<Rightarrow> string \<Rightarrow> string \<Rightarrow> string" where
  "replace_word targetWord englishWord processedText =
     (if regex_test (boundary_match targetWord) [] processedText
      then replace_all (boundary_match targetWord) targetWord englishWord [] processedText
      else replace_all (loose_match targetWord) targetWord englishWord [] processedText)"

text \<open>
  The \<open>forEach\<close> inside the \<open>try\<close>: reading \<open>trim\<close> of a field that is no string
  throws, the \<open>catch\<close> logs it, and the text processed so far is returned.
\<close>

fun forEach_replace :: "string \<Rightarrow> entry list \<Rightarrow> string \<Rightarrow> string" where
  "forEach_replace targetLang [] processedText = processedText"
| "forEach_replace targetLang (wordEntry # rest) processedText =
     (case (wordEntry targetLang, wordEntry ''en'') of
        (Some (JString t), Some (JString e)) \<Rightarrow>
          forEach_replace targetLang rest (replace_word (trim t) (trim e) processedText)
      | _ \<Rightarrow> processedText)"

text \<open>
  The valid entries, sorted: \<open>None\<close> when the \<open>filter\<close> throws. The \<open>catch\<close> of
  \<open>applyWordReplacements\<close> then returns the text as it came.
\<close>

definition sortedWords :: "entry list \<Rightarrow> string \<Rightarrow> entry list option" where
  "sortedWords excludedWords targetLang =
     map_option (sort_desc (trimmed_length targetLang)) (filter_valid targetLang excludedWords)"

definition applyWordReplacements :: "entry list \<Rightarrow> string \<Rightarrow> string \<Rightarrow> string" where
  "applyWordReplacements excludedWords text targetLang =
     (if text = [] then text
      else case sortedWords excludedWords targetLang of
             None \<Rightarrow> text
           | Some sortedEntries \<Rightarrow> forEach_replace targetLang sortedEntries text)"

section \<open>Configuration\<close>

text \<open>
  \<open>parseInt(process.env.X) || d\<close>: the default \<open>d\<close> stands in when the variable is
  unset, is no number, or is zero.
\<close>

definition env_int :: "string option \<Rightarrow> int \<Rightarrow> int" where
  "env_int v d =
     (case v of
        None \<Rightarrow> d
      | Some s \<Rightarrow> (case parseInt s of None \<Rightarrow> d | Some n \<Rightarrow> if n = 0 then d else n))"

record config =
  maxTranslationLength :: int
  maxRoomParticipants :: int

definition config_of_env :: "string option \<Rightarrow> string option \<Rightarrow> config" where
  "config_of_env max_translation_length max_room_participants =
     \<lparr> maxTranslationLength = env_int max_translation_length 5000,
       maxRoomParticipants = env_int max_room_participants 2 \<rparr>"

section \<open>The translation route\<close>

text \<open>Decimal digits of a number, as a template literal prints it.\<close>

function show_nat :: "nat \<Rightarrow> string" where
  "show_nat n =
     (if n < 10 then [''0123456789'' ! n]
      else show_nat (n div 10) @ [''0123456789'' ! (n mod 10)])"
  by pat_completeness auto
termination
  by (relation "measure id") auto

definition show_int :: "int \<Rightarrow> string" where
  "show_int i = (if i < 0 then CHR ''-'' # show_nat (nat (- i)) else show_nat (nat i))"

text \<open>
  \<open>validateInput\<close>: \<open>Inl\<close> carries the error of an invalid text, \<open>Inr\<close> the trimmed
  text. A request whose \<open>text\<close> is missing or is no string has \<open>None\<close>.
\<close>

definition validateInput :: "string option \<Rightarrow> int \<Rightarrow> string + string" where
  "validateInput text maxLength =
     (case text of
        None \<Rightarrow> Inl ''Text is required and must be a string''
      | Some t \<Rightarrow>
          if t = [] then Inl ''Text is required and must be a string''
          else if length (trim t) = 0 then Inl ''Text cannot be empty''
          else if int (length (trim t)) > maxLength
            then Inl (''Text too long (max '' @ show_int maxLength @ '' characters)'')
          else Inr (trim t))"

text \<open>
  What the backend answers. \<open>GET /health\<close>: the request or the reading of its body
  fails, or the status is not 2xx, or the body is read and its \<open>model_loaded\<close> is
  truthy or not.
  \<open>POST /translate\<close>: the request or the reading of the body of a 2xx reply fails
  with an error of some message (a failure of the network, a timeout, a body that is
  no JSON or is \<open>null\<close>), or the status is not 2xx, with a body and a status text, or
  the translation arrives: the translated text, a string, and the sentence count when
  there is one. The body of a reply that is not 2xx is no JSON, or the
  JSON \<open>null\<close>, or any other JSON value with its \<open>detail\<close>: a falsy one (\<open>None\<close>: no
  detail, \<open>null\<close>, \<open>false\<close>, \<open>0\<close>, the empty string), a truthy one with the text that
  the template literal prints for it (empty for the empty array), or a truthy one
  that cannot be printed (an object or an array of one whose \<open>toString\<close> is no
  function).
\<close>

datatype health_reply = HealthThrows | HealthNotOk | HealthOk bool

datatype error_body = NoJson | NullBody | Detail "string option" | Unprintable

datatype translate_reply =
    TranslateThrows string
  | TranslateNotOk error_body string
  | TranslateOk string "nat option"

record backend =
  health_endpoint :: health_reply
  translate_endpoint :: "string \<Rightarrow> string \<Rightarrow> string \<Rightarrow> translate_reply"

text \<open>The requests a call sends to the backend, in order.\<close>

datatype backend_call = GetHealth | PostTranslate string string string

text \<open>
  The clock of a call: \<open>Date.now()\<close> when the translation starts and when it is done,
  the timestamp of the log entry, and the day as \<open>YYYYMMDD\<close>.
\<close>

record clock =
  startTime :: int
  endTime :: int
  isoTime :: string
  dateStr :: string

record logEntry =
  log_timestamp :: string
  log_source :: string
  log_target :: string
  log_input :: string
  log_output :: string
  log_durationMs :: int

text \<open>
  The state of the translation service: the health flag, the dictionary and its file,
  the log files under \<open>translation-logs/\<close> and \<open>translation_logs.json\<close>, and the file
  system they are in. \<open>logPath\<close> is \<open>path.join\<close> with the directory of the logs: the
  file that a name denotes (two names can denote one file, and a name with a
  separator denotes a file in another directory). \<open>logWritable\<close> tells whether
  \<open>writeFileSync\<close> to a log file succeeds; it fails, for one, when the directory of
  the file does not exist. \<open>mainLogWritable\<close> is the same for
  \<open>translation_logs.json\<close>. \<open>logsDirError\<close> is the message of the error of
  \<open>mkdirSync\<close> when the directory of the logs cannot be made. A log file holds what
  \<open>logTranslation\<close>, which alone writes it, has written: an array of entries; a file
  that is missing or cannot be read counts as the empty array.
\<close>

record translator =
  pythonServiceHealthy :: bool
  excludedWords :: "entry list"
  excludedWordsFile :: "entry list"
  roomLogs :: "(string \<times> logEntry list) list"
  mainLogs :: "logEntry list"
  logPath :: "string \<Rightarrow> string"
  logWritable :: "string \<Rightarrow> bool"
  mainLogWritable :: bool
  logsDirError :: "string option"

definition checkPythonServiceHealth :: "health_reply \<Rightarrow> translator \<Rightarrow> bool \<times> translator" where
  "checkPythonServiceHealth reply st =
     (case reply of
        HealthOk model_loaded \<Rightarrow> (model_loaded, st\<lparr>pythonServiceHealthy := model_loaded\<rparr>)
      | HealthNotOk \<Rightarrow> (False, st\<lparr>pythonServiceHealthy := False\<rparr>)
      | HealthThrows \<Rightarrow> (False, st\<lparr>pythonServiceHealthy := False\<rparr>))"

text \<open>
  \<open>translateWithPythonService\<close>: \<open>Inl\<close> carries the message of the error thrown,
  \<open>Inr\<close> the translated text and the sentence count. Reading \<open>detail\<close> of the body
  \<open>null\<close> and printing a detail that cannot be printed throw a \<open>TypeError\<close>, with
  the message of V8.
\<close>

definition translateWithPythonService :: "translate_reply \<Rightarrow> string + string \<times> nat" where
  "translateWithPythonService reply =
     (case reply of
        TranslateThrows message \<Rightarrow> Inl message
      | TranslateNotOk errorData statusText \<Rightarrow>
          (case errorData of
             NullBody \<Rightarrow> Inl ''Cannot read properties of null (reading 'detail')''
           | NoJson \<Rightarrow> Inl (''Translation failed: '' @ ''Unknown error'')
           | Unprintable \<Rightarrow> Inl ''Cannot convert object to primitive value''
           | Detail None \<Rightarrow> Inl (''Translation failed: '' @ statusText)
           | Detail (Some d) \<Rightarrow> Inl (''Translation failed: '' @ d))
      | TranslateOk translated_text sentence_count \<Rightarrow>
          Inr (translated_text,
               (case sentence_count of None \<Rightarrow> 1 | Some n \<Rightarrow> if n = 0 then 1 else n)))"

text \<open>
  \<open>logTranslation\<close> takes the accuracy with the other fields; the entry it writes has
  the six fields of \<open>logEntry\<close>. An error of a write is caught and printed; an error
  of \<open>mkdirSync\<close> is not caught, and \<open>Inl\<close> carries its message.
\<close>

definition logTranslation ::
  "clock \<Rightarrow> string \<Rightarrow> string \<Rightarrow> string \<Rightarrow> string \<Rightarrow> int \<Rightarrow> rat option \<Rightarrow> string \<Rightarrow>
   translator \<Rightarrow> string + translator" where
  "logTranslation clk source target input output durationMs accuracy roomId st =
     (if roomId = [] then Inr st
      else
        case logsDirError st of
          Some message \<Rightarrow> Inl message
        | None \<Rightarrow>
            let entry = \<lparr> log_timestamp = isoTime clk, log_source = source, log_target = target,
                          log_input = input, log_output = output, log_durationMs = durationMs \<rparr>;
                filePath = logPath st (roomId @ ''-'' @ dateStr clk @ ''.json'');
                logs = (case map_of (roomLogs st) filePath of None \<Rightarrow> [] | Some l \<Rightarrow> l);
                st1 = (if logWritable st filePath
                       then st\<lparr>roomLogs := AList.update filePath (logs @ [entry]) (roomLogs st)\<rparr>
                       else st)
            in Inr (if mainLogWritable st1 then st1\<lparr>mainLogs := mainLogs st1 @ [entry]\<rparr>
                    else st1))"

text \<open>The word overlap of the reference and the output.\<close>

definition word_overlap :: "string \<Rightarrow> string \<Rightarrow> rat" where
  "word_overlap reference translatedText =
     (let refWords = split_ws [] (toLowerCase reference);
          outWords = split_ws [] (toLowerCase translatedText);
          intersection = filter (\<lambda>word. word \<in> set outWords) refWords
      in of_nat (length intersection) / of_nat (max (length refWords) (length outWords)))"

record request =
  req_text :: "string option"
  req_source :: "string option"
  req_target :: "string option"
  req_reference :: "string option"
  req_roomId :: "string option"

datatype body = ErrorBody string | Translated string | Message string nat

datatype response = Response (status: nat) (body: body)

text \<open>The \<open>catch\<close> of the route: the status of an error, by its message.\<close>

definition error_response :: "string \<Rightarrow> response" where
  "error_response message =
     (if str_includes message ''timeout''
        then Response 504 (ErrorBody ''Translation timeout - request took too long'')
      else if str_includes message ''Translation failed''
        then Response 400 (ErrorBody message)
      else Response 500 (ErrorBody ''Translation service temporarily unavailable''))"

text \<open>
  \<open>POST /api/translate\<close>: the response, the requests sent to the backend, and the
  state after the call. An error thrown by \<open>translateWithPythonService\<close> or by
  \<open>logTranslation\<close> goes to the \<open>catch\<close> of the route.
\<close>

definition api_translate ::
  "config \<Rightarrow> backend \<Rightarrow> clock \<Rightarrow> request \<Rightarrow> translator \<Rightarrow>
   (response \<times> backend_call list) \<times> translator" where
  "api_translate cfg be clk req st =
     (case validateInput (req_text req) (maxTranslationLength cfg) of
        Inl error \<Rightarrow> ((Response 400 (ErrorBody error), []), st)
      | Inr text \<Rightarrow>
          let (healthCheck, probes, st1) =
                (if \<not> pythonServiceHealthy st
                 then (let (h, s) = checkPythonServiceHealth (health_endpoint be) st
                       in (h, [GetHealth], s))
                 else (True, [], st))
          in if \<not> healthCheck then
               ((Response 503 (ErrorBody
                  ''Translation service unavailable - Python microservice is not responding''),
                 probes), st1)
             else
               let source = (case req_source req of None \<Rightarrow> ''auto'' | Some s \<Rightarrow> s);
                   target = (case req_target req of None \<Rightarrow> ''en'' | Some t \<Rightarrow> t);
                   sl = split_first (CHR ''-'') source;
                   tl = split_first (CHR ''-'') target;
                   calls = probes @ [PostTranslate text sl tl]
               in case translateWithPythonService (translate_endpoint be text sl tl) of
                    Inl message \<Rightarrow> ((error_response message, calls), st1)
                  | Inr (translated, sentenceCount) \<Rightarrow>
                      let translatedText = applyWordReplacements (excludedWords st1) translated tl;
                          durationMs = endTime clk - startTime clk;
                          accuracy = (case req_reference req of
                                        None \<Rightarrow> None
                                      | Some r \<Rightarrow> if r = [] then None
                                                  else Some (word_overlap r translatedText));
                          logRoomId = (case req_roomId req of
                                         None \<Rightarrow> ''general-'' @ dateStr clk
                                       | Some r \<Rightarrow> if r = [] then ''general-'' @ dateStr clk else r)
                      in case logTranslation clk source target
                                (case req_text req of None \<Rightarrow> [] | Some input \<Rightarrow> input)
                                translatedText durationMs accuracy logRoomId st1 of
                           Inl message \<Rightarrow> ((error_response message, calls), st1)
                         | Inr st2 \<Rightarrow> ((Response 200 (Translated translatedText), calls), st2))"

section \<open>The dictionary routes\<close>

definition saveExcludedWords :: "translator \<Rightarrow> translator" where
  "saveExcludedWords st = st\<lparr>excludedWordsFile := excludedWords st\<rparr>"

text \<open>
  \<open>xs.splice(start, 1)\<close>, where \<open>start\<close> is a number or \<open>NaN\<close>: \<open>NaN\<close> counts as 0, a
  negative start counts from the end, and a start beyond the end removes nothing.
\<close>

definition splice1 :: "int option \<Rightarrow> 'a list \<Rightarrow> 'a list" where
  "splice1 start xs =
     (let len = int (length xs);
          relativeStart = (case start of None \<Rightarrow> 0 | Some i \<Rightarrow> i);
          actualStart = (if relativeStart < 0 then max (len + relativeStart) 0
                         else min relativeStart len)
      in take (nat actualStart) xs @ drop (nat actualStart + 1) xs)"

text \<open>
  \<open>DELETE /api/dictionary/:index\<close>. A comparison with \<open>NaN\<close> is false, so the test of
  the bounds rejects numbers only.
\<close>

definition api_dictionary_delete :: "string \<Rightarrow> translator \<Rightarrow> response \<times> translator" where
  "api_dictionary_delete param st =
     (let index = parseInt param
      in if (case index of
               None \<Rightarrow> False
             | Some i \<Rightarrow> i < 0 \<or> i \<ge> int (length (excludedWords st)))
         then (Response 404 (ErrorBody ''Word not found''), st)
         else
           let st1 = saveExcludedWords (st\<lparr>excludedWords := splice1 index (excludedWords st)\<rparr>)
           in (Response 200 (Message ''Word deleted successfully'' (length (excludedWords st1))),
               st1))"

section \<open>Rooms and signaling\<close>

record room =
  participants :: "string list"
  isPublic :: bool
  lang :: "string option"

text \<open>A transcript message, as the client sends it.\<close>

record message =
  msg_roomId :: string
  msg_type :: "string option"
  msg_sender :: string
  msg_transcript :: string
  msg_timestamp :: "int option"

datatype payload =
    NoPayload
  | Text string
  | RoomResult bool string
  | Meetings "(string \<times> nat) list"
  | TranscriptMsg message

text \<open>
  What a handler sends: \<open>socket.emit\<close> to the socket itself, \<open>io.to(c).emit\<close> to the
  channel \<open>c\<close> (every socket is in the channel of its own id),
  \<open>socket.to(c).emit\<close> to the channel \<open>c\<close> but the socket, and \<open>io.emit\<close> to all.
\<close>

datatype emission =
    SocketEmit string string payload
  | IoTo string string payload
  | SocketTo string string string payload
  | IoEmit string payload

text \<open>
  The state of the server: the maps \<open>rooms\<close> and \<open>transcripts\<close>, in the order of
  insertion, as a JavaScript \<open>Map\<close> keeps them; the channels each socket has joined
  with \<open>socket.join\<close>; and the transcripts written to files. The availability of
  agents is not part of the embedding.
\<close>

record server =
  rooms :: "(string \<times> room) list"
  transcripts :: "(string \<times> message list) list"
  channels :: "(string \<times> string) list"
  transcriptFiles :: "(string \<times> message list) list"

definition initial_server :: server where
  "initial_server = \<lparr> rooms = [], transcripts = [], channels = [], transcriptFiles = [] \<rparr>"

definition socket_join :: "string \<Rightarrow> string \<Rightarrow> server \<Rightarrow> server" where
  "socket_join socketId channel s =
     (if (socketId, channel) \<in> set (channels s) then s
      else s\<lparr>channels := channels s @ [(socketId, channel)]\<rparr>)"

text \<open>The sockets that receive \<open>socket.to(channel).emit\<close>.\<close>

definition broadcast_receivers :: "server \<Rightarrow> string \<Rightarrow> string \<Rightarrow> string list" where
  "broadcast_receivers s socketId channel =
     filter (\<lambda>c. c \<noteq> socketId) (map fst (filter (\<lambda>(c, ch). ch = channel) (channels s)))"


definition emitActiveMeetings :: "server \<Rightarrow> emission" where
  "emitActiveMeetings s =
     IoEmit ''active-meetings''
       (Meetings (map (\<lambda>(roomId, room). (roomId, length (participants room)))
          (filter (\<lambda>(roomId, room). isPublic room \<and> length (participants room) > 0) (rooms s))))"

definition createRoom :: "string \<Rightarrow> string \<Rightarrow> string option \<Rightarrow> server \<Rightarrow> server \<times> emission list" where
  "createRoom socketId roomId language s =
     (if roomId = [] then
        (s, [SocketEmit socketId ''createRoomResult'' (RoomResult False ''Invalid roomId'')])
      else if map_of (rooms s) roomId \<noteq> None then
        (s, [SocketEmit socketId ''createRoomResult'' (RoomResult False ''Room already exists'')])
      else
        (s\<lparr>rooms := AList.update roomId \<lparr>participants = [], isPublic = True, lang = language\<rparr> (rooms s)\<rparr>,
         [SocketEmit socketId ''createRoomResult'' (RoomResult True roomId)]))"

text \<open>The options of a join: \<open>isCreator\<close> as a truth value, \<open>isPublic\<close> when it is given.\<close>

record join_opts =
  isCreator :: bool
  opt_isPublic :: "bool option"

definition join :: "config \<Rightarrow> string \<Rightarrow> string \<Rightarrow> join_opts \<Rightarrow> server \<Rightarrow> server \<times> emission list" where
  "join cfg socketId roomId opts s =
     (if roomId = [] then (s, [SocketEmit socketId ''error'' (Text ''Invalid roomId'')])
      else
        case map_of (rooms s) roomId of
          None \<Rightarrow>
            if isCreator opts then
              (socket_join socketId roomId
                 (s\<lparr>rooms := AList.update roomId
                      \<lparr>participants = [socketId], isPublic = (opt_isPublic opts \<noteq> Some False),
                        lang = None\<rparr> (rooms s)\<rparr>),
               [SocketEmit socketId ''created'' (Text roomId)])
            else (s, [SocketEmit socketId ''no-room'' (Text roomId)])
        | Some room \<Rightarrow>
            if int (length (participants room)) \<ge> maxRoomParticipants cfg then
              (s, [SocketEmit socketId ''full'' (Text roomId)])
            else
              let s1 = socket_join socketId roomId s;
                  room1 = room\<lparr>participants := participants room @ [socketId]\<rparr>;
                  s2 = s1\<lparr>rooms := AList.update roomId room1 (rooms s1)\<rparr>
              in (s2,
                  (if length (participants room1) = 1 then
                     [SocketEmit socketId ''created'' (Text roomId)]
                   else if length (participants room1) = 2 then
                     [SocketEmit socketId ''joined'' (Text roomId),
                      IoTo (participants room1 ! 0) ''user-joined'' NoPayload]
                   else []) @ [emitActiveMeetings s2]))"

text \<open>
  \<open>forwardToOther\<close>: the first participant that is not the sender gets the payload,
  unless its id is the empty string, which is falsy.
\<close>

definition forwardToOther :: "string \<Rightarrow> string \<Rightarrow> string \<Rightarrow> payload \<Rightarrow> server \<Rightarrow> emission list" where
  "forwardToOther roomId senderId event pl s =
     (case map_of (rooms s) roomId of
        None \<Rightarrow> []
      | Some room \<Rightarrow>
          (case find (\<lambda>p. p \<noteq> senderId) (participants room) of
             None \<Rightarrow> []
           | Some other \<Rightarrow> if other \<noteq> [] then [IoTo other event pl] else []))"

datatype signal = Offer | Answer | IceCandidate

fun event_name :: "signal \<Rightarrow> string" where
  "event_name Offer = ''offer''"
| "event_name Answer = ''answer''"
| "event_name IceCandidate = ''ice-candidate''"

definition on_signal :: "signal \<Rightarrow> string \<Rightarrow> payload \<Rightarrow> string \<Rightarrow> server \<Rightarrow> server \<times> emission list" where
  "on_signal kind socketId pl roomId s = (s, forwardToOther roomId socketId (event_name kind) pl s)"

text \<open>\<open>saveTranscript\<close> writes the buffer of the room to a file, unless it is empty.\<close>

definition saveTranscript :: "string \<Rightarrow> server \<Rightarrow> server" where
  "saveTranscript roomId s =
     (case map_of (transcripts s) roomId of
        None \<Rightarrow> s
      | Some buffer \<Rightarrow>
          if buffer = [] then s
          else s\<lparr>transcriptFiles := transcriptFiles s @ [(roomId, buffer)]\<rparr>)"

definition handleLeave :: "string \<Rightarrow> string \<Rightarrow> server \<Rightarrow> server \<times> emission list" where
  "handleLeave socketId roomId s =
     (case map_of (rooms s) roomId of
        None \<Rightarrow> (s, [])
      | Some room \<Rightarrow>
          let room1 = room\<lparr>participants := filter (\<lambda>p. p \<noteq> socketId) (participants room)\<rparr>;
              s1 = s\<lparr>rooms := AList.update roomId room1 (rooms s)\<rparr>;
              out = [SocketTo socketId roomId ''user-disconnected'' NoPayload]
          in if length (participants room1) = 0 then
               (let s2 = saveTranscript roomId s1
                in s2\<lparr>rooms := AList.delete roomId (rooms s2),
                       transcripts := AList.delete roomId (transcripts s2)\<rparr>, out)
             else (s1, out))"

text \<open>The handler of \<open>leave\<close>.\<close>

definition leave :: "string \<Rightarrow> string \<Rightarrow> server \<Rightarrow> server \<times> emission list" where
  "leave socketId roomId s =
     (let (s1, out) = handleLeave socketId roomId s;
          s2 = (case map_of (rooms s1) roomId of
                  None \<Rightarrow> s1\<lparr>rooms := AList.delete roomId (rooms s1),
                              transcripts := AList.delete roomId (transcripts s1)\<rparr>
                | Some room \<Rightarrow>
                    if length (participants room) = 0 then
                      s1\<lparr>rooms := AList.delete roomId (rooms s1),
                         transcripts := AList.delete roomId (transcripts s1)\<rparr>
                    else s1)
      in (s2, out @ [emitActiveMeetings s2]))"

text \<open>
  The handler of \<open>transcript\<close>; \<open>now\<close> is \<open>Date.now()\<close>. A message with no room id is
  dropped. The message is forwarded to the other participant unless it is a
  translation.
\<close>

definition on_transcript :: "string \<Rightarrow> message \<Rightarrow> int \<Rightarrow> server \<Rightarrow> server \<times> emission list" where
  "on_transcript socketId msg now s =
     (if msg_roomId msg = [] then (s, [])
      else
        let buffer = (case map_of (transcripts s) (msg_roomId msg) of None \<Rightarrow> [] | Some b \<Rightarrow> b);
            stamped = msg\<lparr>msg_timestamp :=
              Some (case msg_timestamp msg of None \<Rightarrow> now | Some t \<Rightarrow> if t = 0 then now else t)\<rparr>;
            s1 = s\<lparr>transcripts := AList.update (msg_roomId msg) (buffer @ [stamped]) (transcripts s)\<rparr>
        in (s1,
            if msg_type msg \<noteq> Some ''translation''
            then forwardToOther (msg_roomId msg) socketId ''transcript'' (TranscriptMsg msg) s1
            else []))"

text \<open>
  A socket disconnects: the handler of \<open>disconnecting\<close> leaves every channel of the
  socket but its own, the socket is taken out of its channels, and the handler of
  \<open>disconnect\<close> sends the active meetings.
\<close>

fun leave_each :: "string \<Rightarrow> string list \<Rightarrow> server \<Rightarrow> server \<times> emission list" where
  "leave_each socketId [] s = (s, [])"
| "leave_each socketId (roomId # roomIds) s =
     (if roomId \<noteq> socketId then
        (let (s1, out1) = handleLeave socketId roomId s;
             (s2, out2) = leave_each socketId roomIds s1
         in (s2, out1 @ out2))
      else leave_each socketId roomIds s)"

definition disconnect :: "string \<Rightarrow> server \<Rightarrow> server \<times> emission list" where
  "disconnect socketId s =
     (let (s1, out) = leave_each socketId
                        (map snd (filter (\<lambda>(c, ch). c = socketId) (channels s))) s;
          s2 = s1\<lparr>channels := filter (\<lambda>(c, ch). c \<noteq> socketId) (channels s1)\<rparr>
      in (s2, out @ [emitActiveMeetings s2]))"

text \<open>
  The events of the sockets that read or change this state, and the states the server
  can reach from the empty one. The other events (the availability of agents, local
  translations, requests for the lists) change none of it.
\<close>

datatype event =
    CreateRoom string string "string option"
  | Join string string join_opts
  | Leave string string
  | Signal signal string payload string
  | Transcript string message int
  | Disconnect string

fun handle :: "config \<Rightarrow> event \<Rightarrow> server \<Rightarrow> server \<times> emission list" where
  "handle cfg (CreateRoom socketId roomId language) s = createRoom socketId roomId language s"
| "handle cfg (Join socketId roomId opts) s = join cfg socketId roomId opts s"
| "handle cfg (Leave socketId roomId) s = leave socketId roomId s"
| "handle cfg (Signal kind socketId pl roomId) s = on_signal kind socketId pl roomId s"
| "handle cfg (Transcript socketId msg now) s = on_transcript socketId msg now s"
| "handle cfg (Disconnect socketId) s = disconnect socketId s"

fun run :: "config \<Rightarrow> event list \<Rightarrow> server \<Rightarrow> server" where
  "run cfg [] s = s"
| "run cfg (e # es) s = run cfg es (fst (handle cfg e s))"

definition reachable :: "config \<Rightarrow> server \<Rightarrow> bool" where
  "reachable cfg s \<longleftrightarrow> (\<exists>es. s = run cfg es initial_server)"

section \<open>The dictionary post-processor, in the words of the specification\<close>








text \<open>
  Every room has a room id that is not empty and at most as many participants as the
  configuration allows.
\<close>

definition rooms_within :: "config \<Rightarrow> (string \<times> room) list \<Rightarrow> bool" where
  "rooms_within cfg rs \<longleftrightarrow>
     (\<forall>(roomId, room) \<in> set rs.
        roomId \<noteq> [] \<and> int (length (participants room)) \<le> maxRoomParticipants cfg)"

section \<open>Sample inputs\<close>

definition demo_words :: "entry list" where
  "demo_words =
     [[''en'' \<mapsto> JString ''color'', ''fr'' \<mapsto> JString ''couleur''],
      [''en'' \<mapsto> JString ''cat'', ''fr'' \<mapsto> JString ''chat'']]"

definition demo_translator :: translator where
  "demo_translator =
     \<lparr> pythonServiceHealthy = False, excludedWords = demo_words,
       excludedWordsFile = demo_words, roomLogs = [], mainLogs = [],
       logPath = (\<lambda>name. ''translation-logs/'' @ name),
       logWritable = (\<lambda>file. CHR ''/'' \<notin> set (drop 17 file)),
       mainLogWritable = True, logsDirError = None \<rparr>"

definition demo_config :: config where
  "demo_config = config_of_env None None"

definition demo_clock :: clock where
  "demo_clock = \<lparr> startTime = 1000, endTime = 1250, isoTime = ''2025-01-01T10:00:00.000Z'', dateStr = ''20250101'' \<rparr>"

definition demo_backend :: backend where
  "demo_backend = \<lparr> health_endpoint = HealthOk True,
       translate_endpoint = (\<lambda>text sl tl. TranslateOk ''le chat'' (Some 1)) \<rparr>"

definition demo_request :: request where
  "demo_request = \<lparr> req_text = Some ''the cat'', req_source = Some ''en-US'', req_target = Some ''fr-FR'',
      req_reference = None, req_roomId = Some ''room42'' \<rparr>"

definition timeout_backend :: backend where
  "timeout_backend = \<lparr> health_endpoint = HealthOk True,
       translate_endpoint = (\<lambda>text sl tl. TranslateThrows ''network timeout at: /translate'') \<rparr>"

definition failing_backend :: backend where
  "failing_backend = \<lparr> health_endpoint = HealthOk True,
       translate_endpoint = (\<lambda>text sl tl. TranslateNotOk (Detail None) ''Internal Server Error'') \<rparr>"

definition refusing_backend :: backend where
  "refusing_backend = \<lparr> health_endpoint = HealthOk True,
       translate_endpoint = (\<lambda>text sl tl. TranslateThrows ''connect ECONNREFUSED'') \<rparr>"

definition down_backend :: backend where
  "down_backend = \<lparr> health_endpoint = HealthThrows,
       translate_endpoint = (\<lambda>text sl tl. TranslateOk ''le chat'' (Some 1)) \<rparr>"

definition blank_request :: request where
  "blank_request = demo_request\<lparr>req_text := Some ''   ''\<rparr>"

definition adhoc_request :: request where
  "adhoc_request = demo_request\<lparr>req_roomId := None\<rparr>"

definition slash_request :: request where
  "slash_request = demo_request\<lparr>req_roomId := Some ''a/b''\<rparr>"

definition null_backend :: backend where
  "null_backend = \<lparr> health_endpoint = HealthOk True,
       translate_endpoint = (\<lambda>text sl tl. TranslateNotOk NullBody ''Bad Gateway'') \<rparr>"

definition creator_opts :: join_opts where
  "creator_opts = \<lparr> isCreator = True, opt_isPublic = None \<rparr>"

definition joiner_opts :: join_opts where
  "joiner_opts = \<lparr> isCreator = False, opt_isPublic = None \<rparr>"

definition paired_server :: server where
  "paired_server =
     run demo_config [Join ''alice'' ''r1'' creator_opts, Join ''bob'' ''r1'' joiner_opts]
       initial_server"

definition eavesdrop_server :: server where
  "eavesdrop_server =
     run demo_config
       [Join ''alice'' ''r1'' creator_opts, Join ''bob'' ''r1'' joiner_opts,
        Join ''mallory'' ''bob'' creator_opts]
       initial_server"




section \<open>The dictionary routes: properties\<close>

lemma splice1_NaN: "splice1 None xs = drop 1 xs"
  by (simp add: splice1_def)

lemma parseInt_abc: "parseInt ''abc'' = None"
  by code_simp

text \<open>
  C10. When the index of \<open>DELETE /api/dictionary/:index\<close> parses to \<open>NaN\<close>, the test of
  the bounds does not reject it: the first entry of the dictionary is removed (an empty
  dictionary stays empty), the table is saved, and the response is the success
  message with status 200, not 404.
\<close>

theorem delete_nan_index_removes_first:
  assumes "parseInt param = None"
  shows "api_dictionary_delete param st =
           (Response 200 (Message ''Word deleted successfully'' (length (excludedWords st) - 1)),
            st\<lparr>excludedWords := drop 1 (excludedWords st),
               excludedWordsFile := drop 1 (excludedWords st)\<rparr>)"
  using assms
  by (simp add: api_dictionary_delete_def saveExcludedWords_def splice1_NaN)

theorem delete_nan_index_removes_first_witness:
  "parseInt ''abc'' = None \<and>
   fst (api_dictionary_delete ''abc'' demo_translator) =
     Response 200 (Message ''Word deleted successfully'' 1) \<and>
   excludedWords (snd (api_dictionary_delete ''abc'' demo_translator)) =
     [[''en'' \<mapsto> JString ''cat'', ''fr'' \<mapsto> JString ''chat'']]"
  using delete_nan_index_removes_first [OF parseInt_abc, of demo_translator]
  by (simp add: parseInt_abc demo_translator_def demo_words_def)


section \<open>The translation route: properties\<close>

lemma demo_config_simps: "maxTranslationLength demo_config = 5000" "maxRoomParticipants demo_config = 2"
  by (simp_all add: demo_config_def config_of_env_def env_int_def)

lemma validateInput_invalid:
  "(\<exists>e. validateInput text maxLength = Inl e) \<longleftrightarrow>
     (case text of None \<Rightarrow> True | Some t \<Rightarrow> trim t = [] \<or> int (length (trim t)) > maxLength)"
  by (auto simp: validateInput_def trim_def split: option.splits)

lemma validateInput_Inr:
  "validateInput text maxLength = Inr t \<longleftrightarrow>
     (\<exists>raw. text = Some raw \<and> t = trim raw \<and> trim raw \<noteq> [] \<and> int (length (trim raw)) \<le> maxLength)"
  by (auto simp: validateInput_def trim_def split: option.splits)

lemma error_response_status: "status (error_response m) \<noteq> 200"
  by (simp add: error_response_def)

lemma gate_open_full:
  assumes v: "validateInput (req_text req) (maxTranslationLength cfg) = Inr t"
    and g: "pythonServiceHealthy st \<or> health_endpoint be = HealthOk True"
  shows "api_translate cfg be clk req st =
     (let source = (case req_source req of None \<Rightarrow> ''auto'' | Some s \<Rightarrow> s);
          target = (case req_target req of None \<Rightarrow> ''en'' | Some t \<Rightarrow> t);
          calls = (if pythonServiceHealthy st then [] else [GetHealth]) @
                  [PostTranslate t (split_first (CHR ''-'') source) (split_first (CHR ''-'') target)];
          st1 = (if pythonServiceHealthy st then st else st\<lparr>pythonServiceHealthy := True\<rparr>)
      in case translateWithPythonService
                (translate_endpoint be t (split_first (CHR ''-'') source)
                   (split_first (CHR ''-'') target)) of
           Inl m \<Rightarrow> ((error_response m, calls), st1)
         | Inr (x, n) \<Rightarrow>
             (case logTranslation clk source target
                     (case req_text req of None \<Rightarrow> [] | Some i \<Rightarrow> i)
                     (applyWordReplacements (excludedWords st) x (split_first (CHR ''-'') target))
                     (endTime clk - startTime clk)
                     (case req_reference req of None \<Rightarrow> None
                      | Some r \<Rightarrow> if r = [] then None
                          else Some (word_overlap r
                            (applyWordReplacements (excludedWords st) x
                               (split_first (CHR ''-'') target))))
                     (case req_roomId req of None \<Rightarrow> ''general-'' @ dateStr clk
                      | Some i \<Rightarrow> if i = [] then ''general-'' @ dateStr clk else i)
                     st1 of
                Inl m \<Rightarrow> ((error_response m, calls), st1)
              | Inr st2 \<Rightarrow>
                  ((Response 200 (Translated
                      (applyWordReplacements (excludedWords st) x (split_first (CHR ''-'') target))),
                    calls), st2)))"
proof (cases "pythonServiceHealthy st")
  case True
  then show ?thesis
    by (simp add: api_translate_def v Let_def split: sum.splits prod.splits)
next
  case False
  with g have h: "health_endpoint be = HealthOk True" by simp
  show ?thesis
    using False
    by (simp add: api_translate_def v h checkPythonServiceHealth_def Let_def
        split: sum.splits prod.splits)
qed

lemma gate_open:
  assumes v: "validateInput (req_text req) (maxTranslationLength cfg) = Inr t"
    and g: "pythonServiceHealthy st \<or> health_endpoint be = HealthOk True"
  shows "fst (api_translate cfg be clk req st) =
     (case translateWithPythonService
             (translate_endpoint be t
                (split_first (CHR ''-'') (case req_source req of None \<Rightarrow> ''auto'' | Some s \<Rightarrow> s))
                (split_first (CHR ''-'') (case req_target req of None \<Rightarrow> ''en'' | Some t \<Rightarrow> t))) of
        Inl m \<Rightarrow> error_response m
      | Inr (x, n) \<Rightarrow>
          (case logsDirError st of
             Some m \<Rightarrow> error_response m
           | None \<Rightarrow>
               Response 200 (Translated (applyWordReplacements (excludedWords st) x
                 (split_first (CHR ''-'') (case req_target req of None \<Rightarrow> ''en'' | Some t \<Rightarrow> t))))),
      (if pythonServiceHealthy st then [] else [GetHealth]) @
      [PostTranslate t
         (split_first (CHR ''-'') (case req_source req of None \<Rightarrow> ''auto'' | Some s \<Rightarrow> s))
         (split_first (CHR ''-'') (case req_target req of None \<Rightarrow> ''en'' | Some t \<Rightarrow> t))])"
proof -
  have nonempty: "(case req_roomId req of None \<Rightarrow> ''general-'' @ dateStr clk
         | Some i \<Rightarrow> if i = [] then ''general-'' @ dateStr clk else i) \<noteq> []"
    by (simp split: option.splits)
  show ?thesis
    unfolding gate_open_full [OF v g]
    using nonempty
    by (simp add: Let_def logTranslation_def split: sum.splits prod.splits option.splits)
qed

lemma gate_closed:
  assumes v: "validateInput (req_text req) (maxTranslationLength cfg) = Inr t"
    and g: "\<not> pythonServiceHealthy st" "health_endpoint be \<noteq> HealthOk True"
  shows "api_translate cfg be clk req st =
           ((Response 503 (ErrorBody
               ''Translation service unavailable - Python microservice is not responding''),
             [GetHealth]),
            st\<lparr>pythonServiceHealthy := False\<rparr>)"
proof -
  have "checkPythonServiceHealth (health_endpoint be) st = (False, st\<lparr>pythonServiceHealthy := False\<rparr>)"
    using g(2) by (cases "health_endpoint be") (auto simp: checkPythonServiceHealth_def)
  then show ?thesis
    using g(1) by (simp add: api_translate_def v)
qed

lemma rejected:
  assumes "validateInput (req_text req) (maxTranslationLength cfg) = Inl e"
  shows "api_translate cfg be clk req st = ((Response 400 (ErrorBody e), []), st)"
  using assms by (simp add: api_translate_def)

lemma translate_reached:
  assumes "PostTranslate t sLang tLang \<in> set (snd (fst (api_translate cfg be clk req st)))"
  shows "validateInput (req_text req) (maxTranslationLength cfg) = Inr t \<and>
         (pythonServiceHealthy st \<or> health_endpoint be = HealthOk True) \<and>
         sLang = split_first (CHR ''-'') (case req_source req of None \<Rightarrow> ''auto'' | Some s \<Rightarrow> s) \<and>
         tLang = split_first (CHR ''-'') (case req_target req of None \<Rightarrow> ''en'' | Some t \<Rightarrow> t)"
proof (cases "validateInput (req_text req) (maxTranslationLength cfg)")
  case (Inl e)
  with assms show ?thesis by (simp add: rejected)
next
  case (Inr t')
  show ?thesis
  proof (cases "pythonServiceHealthy st \<or> health_endpoint be = HealthOk True")
    case True
    with assms Inr show ?thesis
      by (auto simp: gate_open [OF Inr True] split: if_splits)
  next
    case False
    with assms Inr show ?thesis by (simp add: gate_closed)
  qed
qed

lemma probes_iff:
  "GetHealth \<in> set (snd (fst (api_translate cfg be clk req st))) \<longleftrightarrow>
     (\<exists>t. validateInput (req_text req) (maxTranslationLength cfg) = Inr t) \<and> \<not> pythonServiceHealthy st"
  by (auto simp: api_translate_def Let_def checkPythonServiceHealth_def
      split: sum.splits prod.splits health_reply.splits)

lemma trim_padded:
  assumes "\<not> is_space c" "0 < n"
  shows "trim (replicate n c @ '' '') = replicate n c"
proof -
  obtain k where n: "n = Suc k" using assms(2) by (cases n) auto
  have a: "dropWhile is_space (replicate n c @ '' '') = replicate n c @ '' ''"
    using assms(1) by (simp add: n)
  have "rev (replicate n c @ '' '') = CHR '' '' # replicate n c" by simp
  moreover have "is_space (CHR '' '')" by (simp add: is_space_def)
  ultimately have "dropWhile is_space (rev (replicate n c @ '' '')) = replicate n c"
    using assms(1) by (simp add: n)
  then show ?thesis by (simp add: trim_def a)
qed

lemma a_not_space: "\<not> is_space (CHR ''a'')" by (simp add: is_space_def)

text \<open>
  C8, as the code has it. A call whose text is missing or empty, is empty after
  trimming, or is longer than the configured maximum after trimming, is answered 400
  with the error of the validation; no request is sent to the backend and the state
  is as before.
\<close>

theorem invalid_text_rejected:
  assumes "case req_text req of None \<Rightarrow> True
           | Some t \<Rightarrow> trim t = [] \<or> int (length (trim t)) > maxTranslationLength cfg"
  shows "\<exists>e. api_translate cfg be clk req st = ((Response 400 (ErrorBody e), []), st)"
proof -
  from assms obtain e where "validateInput (req_text req) (maxTranslationLength cfg) = Inl e"
    using validateInput_invalid by blast
  then show ?thesis by (simp add: api_translate_def)
qed

theorem invalid_text_rejected_witness:
  "(case req_text blank_request of None \<Rightarrow> True
    | Some t \<Rightarrow> trim t = [] \<or> int (length (trim t)) > maxTranslationLength demo_config) \<and>
   api_translate demo_config demo_backend demo_clock blank_request demo_translator =
     ((Response 400 (ErrorBody ''Text cannot be empty''), []), demo_translator)"
proof -
  have h: "case req_text blank_request of None \<Rightarrow> True
    | Some t \<Rightarrow> trim t = [] \<or> int (length (trim t)) > maxTranslationLength demo_config"
    by code_simp
  have e: "validateInput (req_text blank_request) (maxTranslationLength demo_config) =
             Inl ''Text cannot be empty''"
    by code_simp
  from invalid_text_rejected [OF h, of demo_backend demo_clock demo_translator] e h
  show ?thesis by (auto simp: api_translate_def)
qed

text \<open>
  C8 as stated fails: the length is measured after trimming. With the default
  maximum of 5000, a text of 5000 letters and a space is 5001 characters long, and
  it is translated.
\<close>

theorem long_padded_text_accepted:
  "length (replicate 5000 (CHR ''a'') @ '' '') > 5000 \<and>
   fst (api_translate demo_config demo_backend demo_clock
          (demo_request\<lparr>req_text := Some (replicate 5000 (CHR ''a'') @ '' '')\<rparr>)
          (demo_translator\<lparr>excludedWords := []\<rparr>)) =
     (Response 200 (Translated ''le chat''),
      [GetHealth, PostTranslate (replicate 5000 (CHR ''a'')) ''en'' ''fr''])"
proof -
  have v: "validateInput (Some (replicate 5000 (CHR ''a'') @ '' '')) 5000 = Inr (replicate 5000 (CHR ''a''))"
  proof -
    have t: "trim (replicate 5000 (CHR ''a'') @ '' '') = replicate 5000 (CHR ''a'')"
      by (rule trim_padded) (simp_all add: a_not_space)
    show ?thesis by (simp add: validateInput_def t)
  qed
  show ?thesis
    by (simp add: api_translate_def demo_config_simps v demo_request_def demo_translator_def
        demo_backend_def checkPythonServiceHealth_def split_first_def translateWithPythonService_def
        applyWordReplacements_def sortedWords_def logTranslation_def Let_def)
qed

text \<open>
  C2. The health flag is false, the call probes the backend, and the probe fails
  (the request fails, the status is not 2xx, or \<open>model_loaded\<close> is not truthy): the
  call is answered 503, the probe is the only request sent to the backend, and the
  flag stays false. A call probes when its text has passed the validation
  (\<open>probes_iff\<close>).
\<close>

theorem unhealthy_and_probe_fails:
  assumes "\<not> pythonServiceHealthy st"
    and "GetHealth \<in> set (snd (fst (api_translate cfg be clk req st)))"
    and "health_endpoint be \<noteq> HealthOk True"
  shows "api_translate cfg be clk req st =
           ((Response 503 (ErrorBody
               ''Translation service unavailable - Python microservice is not responding''),
             [GetHealth]),
            st\<lparr>pythonServiceHealthy := False\<rparr>)"
proof -
  from assms(2) obtain t where "validateInput (req_text req) (maxTranslationLength cfg) = Inr t"
    using probes_iff by blast
  moreover have "checkPythonServiceHealth (health_endpoint be) st = (False, st\<lparr>pythonServiceHealthy := False\<rparr>)"
    using assms(3) by (cases "health_endpoint be") (auto simp: checkPythonServiceHealth_def)
  ultimately show ?thesis
    using assms(1) by (simp add: api_translate_def)
qed

theorem unhealthy_and_probe_fails_witness:
  "\<not> pythonServiceHealthy demo_translator \<and>
   GetHealth \<in> set (snd (fst (api_translate demo_config down_backend demo_clock demo_request demo_translator))) \<and>
   health_endpoint down_backend \<noteq> HealthOk True \<and>
   api_translate demo_config down_backend demo_clock demo_request demo_translator =
     ((Response 503 (ErrorBody
         ''Translation service unavailable - Python microservice is not responding''),
       [GetHealth]),
      demo_translator)"
proof -
  have a: "\<not> pythonServiceHealthy demo_translator" by (simp add: demo_translator_def)
  have b: "GetHealth \<in> set (snd (fst (api_translate demo_config down_backend demo_clock demo_request demo_translator)))"
    by code_simp
  have c: "health_endpoint down_backend \<noteq> HealthOk True" by (simp add: down_backend_def)
  have d: "demo_translator\<lparr>pythonServiceHealthy := False\<rparr> = demo_translator"
    by (simp add: demo_translator_def)
  show ?thesis
    using unhealthy_and_probe_fails [OF a b c] a b c d by simp
qed

text \<open>
  C5, as the code has it. A call answered 200 makes one entry, with the source and
  target language, the input, the output and the duration, and writes it to the main
  log and to the file of its room, each when the file system takes the write: the
  entry is appended there, and a file whose write fails is left as it was, the error
  being caught. Without a room id the file is that of the bucket
  \<open>general-YYYYMMDD\<close>. A call answered with any other status leaves the logs as they
  were; so does the call whose translation has arrived and whose directory of logs
  cannot be made, which is answered as a failure.
\<close>

theorem translate_logging:
  fixes cfg be clk req st
  defines "r \<equiv> api_translate cfg be clk req st"
    and "file \<equiv> logPath st
           ((case req_roomId req of
               None \<Rightarrow> ''general-'' @ dateStr clk
             | Some i \<Rightarrow> if i = [] then ''general-'' @ dateStr clk else i) @
            ''-'' @ dateStr clk @ ''.json'')"
    and "entry \<equiv> (\<lambda>out. \<lparr> log_timestamp = isoTime clk,
                    log_source = (case req_source req of None \<Rightarrow> ''auto'' | Some s \<Rightarrow> s),
                    log_target = (case req_target req of None \<Rightarrow> ''en'' | Some t \<Rightarrow> t),
                    log_input = (case req_text req of None \<Rightarrow> [] | Some t \<Rightarrow> t),
                    log_output = out,
                    log_durationMs = endTime clk - startTime clk \<rparr>)"
  shows "(status (fst (fst r)) = 200 \<longrightarrow>
            (\<exists>out. fst (fst r) = Response 200 (Translated out) \<and>
               mainLogs (snd r) =
                 (if mainLogWritable st then mainLogs st @ [entry out] else mainLogs st) \<and>
               roomLogs (snd r) =
                 (if logWritable st file
                  then AList.update file
                         ((case map_of (roomLogs st) file of None \<Rightarrow> [] | Some l \<Rightarrow> l) @
                          [entry out])
                         (roomLogs st)
                  else roomLogs st))) \<and>
         (status (fst (fst r)) \<noteq> 200 \<longrightarrow>
            mainLogs (snd r) = mainLogs st \<and> roomLogs (snd r) = roomLogs st) \<and>
         (logsDirError st \<noteq> None \<longrightarrow> status (fst (fst r)) \<noteq> 200)"
proof (cases "validateInput (req_text req) (maxTranslationLength cfg)")
  case (Inl e)
  then show ?thesis
    unfolding r_def by (simp add: rejected)
next
  case (Inr t)
  show ?thesis
  proof (cases "pythonServiceHealthy st \<or> health_endpoint be = HealthOk True")
    case False
    then show ?thesis
      unfolding r_def by (simp add: gate_closed [OF Inr])
  next
    case True
    note full = gate_open_full [OF Inr True, of clk]
    show ?thesis
    proof (cases "translateWithPythonService
                (translate_endpoint be t
                   (split_first (CHR ''-'') (case req_source req of None \<Rightarrow> ''auto'' | Some s \<Rightarrow> s))
                   (split_first (CHR ''-'') (case req_target req of None \<Rightarrow> ''en'' | Some t \<Rightarrow> t)))")
      case (Inl m)
      then show ?thesis
        unfolding r_def full by (simp add: Let_def error_response_status)
    next
      case (Inr res)
      obtain x n where res: "res = (x, n)" by (cases res)
      have nonempty: "(case req_roomId req of None \<Rightarrow> ''general-'' @ dateStr clk
             | Some i \<Rightarrow> if i = [] then ''general-'' @ dateStr clk else i) \<noteq> []"
        by (simp split: option.splits)
      show ?thesis
      proof (cases "logsDirError st")
        case None
        then show ?thesis
          unfolding r_def full file_def entry_def
          using nonempty
          by (simp add: Inr res Let_def logTranslation_def)
      next
        case (Some m)
        then show ?thesis
          unfolding r_def full file_def entry_def
          using nonempty
          by (simp add: Inr res Let_def logTranslation_def error_response_status)
      qed
    qed
  qed
qed

theorem translate_logging_witness:
  "status (fst (fst (api_translate demo_config demo_backend demo_clock adhoc_request demo_translator))) = 200 \<and>
   mainLogWritable demo_translator \<and>
   logWritable demo_translator ''translation-logs/general-20250101-20250101.json'' \<and>
   mainLogs (snd (api_translate demo_config demo_backend demo_clock adhoc_request demo_translator)) =
     [\<lparr> log_timestamp = ''2025-01-01T10:00:00.000Z'', log_source = ''en-US'', log_target = ''fr-FR'',
        log_input = ''the cat'', log_output = ''le cat'', log_durationMs = 250 \<rparr>] \<and>
   roomLogs (snd (api_translate demo_config demo_backend demo_clock adhoc_request demo_translator)) =
     [(''translation-logs/general-20250101-20250101.json'',
       [\<lparr> log_timestamp = ''2025-01-01T10:00:00.000Z'', log_source = ''en-US'', log_target = ''fr-FR'',
          log_input = ''the cat'', log_output = ''le cat'', log_durationMs = 250 \<rparr>])] \<and>
   status (fst (fst (api_translate demo_config demo_backend demo_clock slash_request demo_translator))) = 200 \<and>
   \<not> logWritable demo_translator ''translation-logs/a/b-20250101.json'' \<and>
   roomLogs (snd (api_translate demo_config demo_backend demo_clock slash_request demo_translator)) = [] \<and>
   status (fst (fst (api_translate demo_config down_backend demo_clock demo_request demo_translator))) \<noteq> 200 \<and>
   mainLogs (snd (api_translate demo_config down_backend demo_clock demo_request demo_translator)) =
     mainLogs demo_translator \<and>
   status (fst (fst (api_translate demo_config demo_backend demo_clock demo_request
     (demo_translator\<lparr>logsDirError := Some ''EACCES: permission denied''\<rparr>)))) \<noteq> 200 \<and>
   mainLogs (snd (api_translate demo_config demo_backend demo_clock demo_request
     (demo_translator\<lparr>logsDirError := Some ''EACCES: permission denied''\<rparr>))) = []"
proof -
  have ok: "fst (fst (api_translate demo_config demo_backend demo_clock adhoc_request demo_translator)) =
      Response 200 (Translated ''le cat'')"
    "fst (fst (api_translate demo_config demo_backend demo_clock slash_request demo_translator)) =
      Response 200 (Translated ''le cat'')"
    by code_simp+
  have ko: "status (fst (fst (api_translate demo_config down_backend demo_clock demo_request demo_translator))) \<noteq> 200"
    by code_simp
  have w: "mainLogWritable demo_translator"
    "logWritable demo_translator ''translation-logs/general-20250101-20250101.json''"
    "\<not> logWritable demo_translator ''translation-logs/a/b-20250101.json''"
    by (simp_all add: demo_translator_def)
  have s: "mainLogs demo_translator = []" "roomLogs demo_translator = []"
    "logPath demo_translator = (\<lambda>name. ''translation-logs/'' @ name)"
    "req_roomId adhoc_request = None" "req_source adhoc_request = Some ''en-US''"
    "req_target adhoc_request = Some ''fr-FR''" "req_text adhoc_request = Some ''the cat''"
    "req_roomId slash_request = Some ''a/b''"
    "isoTime demo_clock = ''2025-01-01T10:00:00.000Z''" "dateStr demo_clock = ''20250101''"
    "endTime demo_clock - startTime demo_clock = 250"
    by (simp_all add: demo_translator_def adhoc_request_def slash_request_def demo_request_def
        demo_clock_def)
  have d: "logsDirError (demo_translator\<lparr>logsDirError := Some ''EACCES: permission denied''\<rparr>) \<noteq> None"
    "mainLogs (demo_translator\<lparr>logsDirError := Some ''EACCES: permission denied''\<rparr>) = []"
    by (simp_all add: demo_translator_def)
  note denied = translate_logging [of demo_config demo_backend demo_clock demo_request
      "demo_translator\<lparr>logsDirError := Some ''EACCES: permission denied''\<rparr>"]
  have no: "status (fst (fst (api_translate demo_config demo_backend demo_clock demo_request
     (demo_translator\<lparr>logsDirError := Some ''EACCES: permission denied''\<rparr>)))) \<noteq> 200"
    using denied [THEN conjunct2, THEN conjunct2] d(1) by blast
  with denied [THEN conjunct2, THEN conjunct1] d(2)
  have none: "mainLogs (snd (api_translate demo_config demo_backend demo_clock demo_request
     (demo_translator\<lparr>logsDirError := Some ''EACCES: permission denied''\<rparr>))) = []"
    by simp
  have "status (fst (fst (api_translate demo_config demo_backend demo_clock adhoc_request demo_translator))) = 200 \<and>
   mainLogWritable demo_translator \<and>
   logWritable demo_translator ''translation-logs/general-20250101-20250101.json'' \<and>
   mainLogs (snd (api_translate demo_config demo_backend demo_clock adhoc_request demo_translator)) =
     [\<lparr> log_timestamp = ''2025-01-01T10:00:00.000Z'', log_source = ''en-US'', log_target = ''fr-FR'',
        log_input = ''the cat'', log_output = ''le cat'', log_durationMs = 250 \<rparr>] \<and>
   roomLogs (snd (api_translate demo_config demo_backend demo_clock adhoc_request demo_translator)) =
     [(''translation-logs/general-20250101-20250101.json'',
       [\<lparr> log_timestamp = ''2025-01-01T10:00:00.000Z'', log_source = ''en-US'', log_target = ''fr-FR'',
          log_input = ''the cat'', log_output = ''le cat'', log_durationMs = 250 \<rparr>])] \<and>
   status (fst (fst (api_translate demo_config demo_backend demo_clock slash_request demo_translator))) = 200 \<and>
   \<not> logWritable demo_translator ''translation-logs/a/b-20250101.json'' \<and>
   roomLogs (snd (api_translate demo_config demo_backend demo_clock slash_request demo_translator)) = [] \<and>
   status (fst (fst (api_translate demo_config down_backend demo_clock demo_request demo_translator))) \<noteq> 200 \<and>
   mainLogs (snd (api_translate demo_config down_backend demo_clock demo_request demo_translator)) =
     mainLogs demo_translator"
    using translate_logging [of demo_config demo_backend demo_clock adhoc_request demo_translator]
      translate_logging [of demo_config demo_backend demo_clock slash_request demo_translator]
      translate_logging [of demo_config down_backend demo_clock demo_request demo_translator]
      ok ko w
    by (simp add: s)
  with no none show ?thesis by blast
qed

text \<open>
  C5 as stated fails: a call that fails is not logged. Here the request to the
  backend times out, the call is answered 504, and no log has an entry.
\<close>

theorem failed_call_not_logged:
  "fst (fst (api_translate demo_config timeout_backend demo_clock demo_request demo_translator)) =
     Response 504 (ErrorBody ''Translation timeout - request took too long'') \<and>
   mainLogs (snd (api_translate demo_config timeout_backend demo_clock demo_request demo_translator)) = [] \<and>
   roomLogs (snd (api_translate demo_config timeout_backend demo_clock demo_request demo_translator)) = []"
  by code_simp

lemma type_error_message:
  "\<not> str_includes ''Cannot read properties of null (reading 'detail')'' ''timeout''"
  "\<not> str_includes ''Cannot read properties of null (reading 'detail')'' ''Translation failed''"
  by code_simp+

lemma primitive_error_message:
  "\<not> str_includes ''Cannot convert object to primitive value'' ''timeout''"
  "\<not> str_includes ''Cannot convert object to primitive value'' ''Translation failed''"
  by code_simp+

lemma unknown_error_message:
  "\<not> str_includes (''Translation failed: '' @ ''Unknown error'') ''timeout''"
  "str_includes (''Translation failed: '' @ ''Unknown error'') ''Translation failed''"
  by code_simp+

text \<open>
  C6, as the code has it. When the request to \<open>/translate\<close> was sent and failed: a
  reply whose status is not 2xx, whatever the status, is answered 400 with the
  detail of the backend (or the status text when the detail is falsy, or
  \<open>Unknown error\<close> when the body is no JSON), unless that message contains
  \<open>timeout\<close>, which is answered 504, and unless the body is the JSON \<open>null\<close> or its
  detail cannot be printed, which is answered 500; an error thrown by the request
  is answered 504 when its message contains \<open>timeout\<close>, 400 when it contains
  \<open>Translation failed\<close>, and 500 otherwise.
\<close>

theorem backend_failure_status:
  assumes "PostTranslate t sLang tLang \<in> set (snd (fst (api_translate cfg be clk req st)))"
  shows "(\<forall>d s. translate_endpoint be t sLang tLang = TranslateNotOk (Detail d) s \<longrightarrow>
            fst (fst (api_translate cfg be clk req st)) =
              (if str_includes (''Translation failed: '' @
                    (case d of None \<Rightarrow> s | Some x \<Rightarrow> x)) ''timeout''
               then Response 504 (ErrorBody ''Translation timeout - request took too long'')
               else Response 400 (ErrorBody (''Translation failed: '' @
                    (case d of None \<Rightarrow> s | Some x \<Rightarrow> x))))) \<and>
         (\<forall>s. translate_endpoint be t sLang tLang = TranslateNotOk NoJson s \<longrightarrow>
            fst (fst (api_translate cfg be clk req st)) =
              Response 400 (ErrorBody ''Translation failed: Unknown error'')) \<and>
         (\<forall>s. translate_endpoint be t sLang tLang = TranslateNotOk NullBody s \<longrightarrow>
            fst (fst (api_translate cfg be clk req st)) =
              Response 500 (ErrorBody ''Translation service temporarily unavailable'')) \<and>
         (\<forall>s. translate_endpoint be t sLang tLang = TranslateNotOk Unprintable s \<longrightarrow>
            fst (fst (api_translate cfg be clk req st)) =
              Response 500 (ErrorBody ''Translation service temporarily unavailable'')) \<and>
         (\<forall>m. translate_endpoint be t sLang tLang = TranslateThrows m \<longrightarrow>
            fst (fst (api_translate cfg be clk req st)) =
              (if str_includes m ''timeout''
               then Response 504 (ErrorBody ''Translation timeout - request took too long'')
               else if str_includes m ''Translation failed'' then Response 400 (ErrorBody m)
               else Response 500 (ErrorBody ''Translation service temporarily unavailable'')))"
proof -
  from translate_reached [OF assms]
  have v: "validateInput (req_text req) (maxTranslationLength cfg) = Inr t"
    and g: "pythonServiceHealthy st \<or> health_endpoint be = HealthOk True"
    and sL: "sLang = split_first (CHR ''-'') (case req_source req of None \<Rightarrow> ''auto'' | Some s \<Rightarrow> s)"
    and tL: "tLang = split_first (CHR ''-'') (case req_target req of None \<Rightarrow> ''en'' | Some t \<Rightarrow> t)"
    by blast+
  have o: "fst (fst (api_translate cfg be clk req st)) =
     (case translateWithPythonService (translate_endpoint be t sLang tLang) of
        Inl m \<Rightarrow> error_response m
      | Inr (x, n) \<Rightarrow>
          (case logsDirError st of
             Some m \<Rightarrow> error_response m
           | None \<Rightarrow> Response 200 (Translated (applyWordReplacements (excludedWords st) x tLang))))"
    unfolding sL tL gate_open [OF v g] by simp
  have thrown: "fst (fst (api_translate cfg be clk req st)) = error_response m"
    if "translateWithPythonService (translate_endpoint be t sLang tLang) = Inl m" for m
    using that by (simp add: o)
  show ?thesis
  proof (intro conjI allI impI)
    fix d s
    assume reply: "translate_endpoint be t sLang tLang = TranslateNotOk (Detail d) s"
    define msg where "msg = ''Translation failed: '' @ (case d of None \<Rightarrow> s | Some x \<Rightarrow> x)"
    have "translateWithPythonService (translate_endpoint be t sLang tLang) = Inl msg"
      by (simp add: reply translateWithPythonService_def msg_def split: option.splits)
    then have "fst (fst (api_translate cfg be clk req st)) = error_response msg"
      by (rule thrown)
    moreover have "str_includes msg ''Translation failed''"
      by (simp add: msg_def)
    ultimately show "fst (fst (api_translate cfg be clk req st)) =
        (if str_includes msg ''timeout''
         then Response 504 (ErrorBody ''Translation timeout - request took too long'')
         else Response 400 (ErrorBody msg))"
      by (simp add: error_response_def del: str_includes.simps)
  next
    fix s
    assume reply: "translate_endpoint be t sLang tLang = TranslateNotOk NoJson s"
    have "translateWithPythonService (translate_endpoint be t sLang tLang) =
            Inl (''Translation failed: '' @ ''Unknown error'')"
      by (simp add: reply translateWithPythonService_def)
    then have "fst (fst (api_translate cfg be clk req st)) =
            error_response (''Translation failed: '' @ ''Unknown error'')"
      by (rule thrown)
    then show "fst (fst (api_translate cfg be clk req st)) =
        Response 400 (ErrorBody ''Translation failed: Unknown error'')"
      unfolding error_response_def using unknown_error_message
      by (simp del: str_includes.simps)
  next
    fix s
    assume reply: "translate_endpoint be t sLang tLang = TranslateNotOk NullBody s"
    have "translateWithPythonService (translate_endpoint be t sLang tLang) =
            Inl ''Cannot read properties of null (reading 'detail')''"
      by (simp add: reply translateWithPythonService_def)
    then have "fst (fst (api_translate cfg be clk req st)) =
            error_response ''Cannot read properties of null (reading 'detail')''"
      by (rule thrown)
    then show "fst (fst (api_translate cfg be clk req st)) =
        Response 500 (ErrorBody ''Translation service temporarily unavailable'')"
      unfolding error_response_def using type_error_message
      by (simp del: str_includes.simps)
  next
    fix s
    assume reply: "translate_endpoint be t sLang tLang = TranslateNotOk Unprintable s"
    have "translateWithPythonService (translate_endpoint be t sLang tLang) =
            Inl ''Cannot convert object to primitive value''"
      by (simp add: reply translateWithPythonService_def)
    then have "fst (fst (api_translate cfg be clk req st)) =
            error_response ''Cannot convert object to primitive value''"
      by (rule thrown)
    then show "fst (fst (api_translate cfg be clk req st)) =
        Response 500 (ErrorBody ''Translation service temporarily unavailable'')"
      unfolding error_response_def using primitive_error_message
      by (simp del: str_includes.simps)
  next
    fix m
    assume reply: "translate_endpoint be t sLang tLang = TranslateThrows m"
    have "translateWithPythonService (translate_endpoint be t sLang tLang) = Inl m"
      by (simp add: reply translateWithPythonService_def)
    then have "fst (fst (api_translate cfg be clk req st)) = error_response m"
      by (rule thrown)
    then show "fst (fst (api_translate cfg be clk req st)) =
        (if str_includes m ''timeout''
         then Response 504 (ErrorBody ''Translation timeout - request took too long'')
         else if str_includes m ''Translation failed'' then Response 400 (ErrorBody m)
         else Response 500 (ErrorBody ''Translation service temporarily unavailable''))"
      by (simp add: error_response_def del: str_includes.simps)
  qed
qed

theorem backend_failure_status_witness:
  "PostTranslate ''the cat'' ''en'' ''fr'' \<in>
     set (snd (fst (api_translate demo_config failing_backend demo_clock demo_request demo_translator))) \<and>
   fst (fst (api_translate demo_config failing_backend demo_clock demo_request demo_translator)) =
     Response 400 (ErrorBody ''Translation failed: Internal Server Error'') \<and>
   PostTranslate ''the cat'' ''en'' ''fr'' \<in>
     set (snd (fst (api_translate demo_config null_backend demo_clock demo_request demo_translator))) \<and>
   fst (fst (api_translate demo_config null_backend demo_clock demo_request demo_translator)) =
     Response 500 (ErrorBody ''Translation service temporarily unavailable'') \<and>
   PostTranslate ''the cat'' ''en'' ''fr'' \<in>
     set (snd (fst (api_translate demo_config timeout_backend demo_clock demo_request demo_translator))) \<and>
   fst (fst (api_translate demo_config timeout_backend demo_clock demo_request demo_translator)) =
     Response 504 (ErrorBody ''Translation timeout - request took too long'') \<and>
   PostTranslate ''the cat'' ''en'' ''fr'' \<in>
     set (snd (fst (api_translate demo_config refusing_backend demo_clock demo_request demo_translator))) \<and>
   fst (fst (api_translate demo_config refusing_backend demo_clock demo_request demo_translator)) =
     Response 500 (ErrorBody ''Translation service temporarily unavailable'')"
proof -
  have a: "PostTranslate ''the cat'' ''en'' ''fr'' \<in>
     set (snd (fst (api_translate demo_config failing_backend demo_clock demo_request demo_translator)))"
    by code_simp
  have b: "PostTranslate ''the cat'' ''en'' ''fr'' \<in>
     set (snd (fst (api_translate demo_config timeout_backend demo_clock demo_request demo_translator)))"
    by code_simp
  have c: "PostTranslate ''the cat'' ''en'' ''fr'' \<in>
     set (snd (fst (api_translate demo_config refusing_backend demo_clock demo_request demo_translator)))"
    by code_simp
  have d: "PostTranslate ''the cat'' ''en'' ''fr'' \<in>
     set (snd (fst (api_translate demo_config null_backend demo_clock demo_request demo_translator)))"
    by code_simp
  have ra: "translate_endpoint failing_backend ''the cat'' ''en'' ''fr'' =
              TranslateNotOk (Detail None) ''Internal Server Error''"
    by (simp add: failing_backend_def)
  have rb: "translate_endpoint timeout_backend ''the cat'' ''en'' ''fr'' =
              TranslateThrows ''network timeout at: /translate''"
    by (simp add: timeout_backend_def)
  have rc: "translate_endpoint refusing_backend ''the cat'' ''en'' ''fr'' =
              TranslateThrows ''connect ECONNREFUSED''"
    by (simp add: refusing_backend_def)
  have rd: "translate_endpoint null_backend ''the cat'' ''en'' ''fr'' =
              TranslateNotOk NullBody ''Bad Gateway''"
    by (simp add: null_backend_def)
  have ia: "\<not> str_includes ''Translation failed: Internal Server Error'' ''timeout''" by code_simp
  have ib: "str_includes ''network timeout at: /translate'' ''timeout''" by code_simp
  have ic: "\<not> str_includes ''connect ECONNREFUSED'' ''timeout''"
    "\<not> str_includes ''connect ECONNREFUSED'' ''Translation failed''" by code_simp+
  from backend_failure_status [OF a] ra ia
  have 1: "fst (fst (api_translate demo_config failing_backend demo_clock demo_request demo_translator)) =
     Response 400 (ErrorBody ''Translation failed: Internal Server Error'')"
    by (simp del: str_includes.simps)
  from backend_failure_status [OF b] rb ib
  have 2: "fst (fst (api_translate demo_config timeout_backend demo_clock demo_request demo_translator)) =
     Response 504 (ErrorBody ''Translation timeout - request took too long'')"
    by (simp del: str_includes.simps)
  from backend_failure_status [OF c] rc ic
  have 3: "fst (fst (api_translate demo_config refusing_backend demo_clock demo_request demo_translator)) =
     Response 500 (ErrorBody ''Translation service temporarily unavailable'')"
    by (simp del: str_includes.simps)
  from backend_failure_status [OF d] rd
  have 4: "fst (fst (api_translate demo_config null_backend demo_clock demo_request demo_translator)) =
     Response 500 (ErrorBody ''Translation service temporarily unavailable'')"
    by (simp del: str_includes.simps)
  from a b c d 1 2 3 4 show ?thesis by blast
qed

text \<open>
  C6 as stated fails: a backend failure that is no rejection of the payload is
  answered 400. Here the backend replies \<open>500 Internal Server Error\<close>.
\<close>

theorem backend_500_answered_400:
  "fst (api_translate demo_config failing_backend demo_clock demo_request demo_translator) =
     (Response 400 (ErrorBody ''Translation failed: Internal Server Error''),
      [GetHealth, PostTranslate ''the cat'' ''en'' ''fr''])"
  by code_simp

text \<open>
  C9. The accuracy is computed from the reference and handed to \<open>logTranslation\<close>,
  which does not write it: the response, the requests and the state after a call,
  logs included, are the same whatever the reference is.
\<close>

theorem reference_never_recorded:
  "api_translate cfg be clk (req\<lparr>req_reference := r\<rparr>) st =
   api_translate cfg be clk (req\<lparr>req_reference := r'\<rparr>) st"
  by (auto simp: api_translate_def logTranslation_def Let_def
      split: sum.splits prod.splits option.splits)

lemma word_overlap_example: "word_overlap ''Le chat noir'' ''le chat'' = 2 / 3"
  by code_simp


section \<open>Rooms and signaling: properties\<close>

lemma set_update_subset: "set (AList.update k v al) \<subseteq> insert (k, v) (set al)"
  by (induction al) auto

lemma set_delete_subset: "set (AList.delete k al) \<subseteq> set al"
  by (induction al) auto

lemma within_update:
  assumes "rooms_within cfg rs" "roomId \<noteq> []" "int (length (participants room)) \<le> maxRoomParticipants cfg"
  shows "rooms_within cfg (AList.update roomId room rs)"
  using assms set_update_subset [of roomId room rs]
  by (fastforce simp: rooms_within_def)

lemma within_delete:
  assumes "rooms_within cfg rs"
  shows "rooms_within cfg (AList.delete roomId rs)"
  using assms set_delete_subset [of roomId rs]
  by (fastforce simp: rooms_within_def)

lemma within_lookup:
  assumes "rooms_within cfg rs" "map_of rs roomId = Some room"
  shows "roomId \<noteq> []" "int (length (participants room)) \<le> maxRoomParticipants cfg"
  using assms map_of_SomeD [of rs roomId room] by (fastforce simp: rooms_within_def)+

lemma rooms_socket_join [simp]: "rooms (socket_join c ch s) = rooms s"
  by (simp add: socket_join_def)

lemma rooms_saveTranscript [simp]: "rooms (saveTranscript r s) = rooms s"
  by (simp add: saveTranscript_def split: option.splits)

lemma createRoom_within:
  assumes "0 \<le> maxRoomParticipants cfg" "rooms_within cfg (rooms s)"
  shows "rooms_within cfg (rooms (fst (createRoom c r l s)))"
  using assms by (simp add: createRoom_def within_update)

lemma join_within:
  assumes "1 \<le> maxRoomParticipants cfg" "rooms_within cfg (rooms s)"
  shows "rooms_within cfg (rooms (fst (join cfg c r opts s)))"
  using assms
  by (auto simp: join_def Let_def intro!: within_update split: option.splits)

lemma handleLeave_within:
  assumes "rooms_within cfg (rooms s)"
  shows "rooms_within cfg (rooms (fst (handleLeave c r s)))"
proof (cases "map_of (rooms s) r")
  case None
  with assms show ?thesis by (simp add: handleLeave_def)
next
  case (Some room)
  have "int (length (filter (\<lambda>p. p \<noteq> c) (participants room))) \<le> int (length (participants room))"
    by simp
  also have "\<dots> \<le> maxRoomParticipants cfg"
    by (rule within_lookup(2) [OF assms Some])
  finally have "rooms_within cfg (AList.update r
          (room\<lparr>participants := filter (\<lambda>p. p \<noteq> c) (participants room)\<rparr>) (rooms s))"
    using assms within_lookup(1) [OF assms Some] by (intro within_update) simp_all
  then show ?thesis
    using Some assms by (simp add: handleLeave_def Let_def within_delete delete_update_same)
qed

lemma leave_within:
  assumes "rooms_within cfg (rooms s)"
  shows "rooms_within cfg (rooms (fst (leave c r s)))"
proof -
  obtain s1 out where h: "handleLeave c r s = (s1, out)"
    by (cases "handleLeave c r s")
  with handleLeave_within [OF assms, of c r] have "rooms_within cfg (rooms s1)"
    by simp
  then show ?thesis
    by (simp add: leave_def h Let_def within_delete split: option.splits)
qed

lemma leave_each_within:
  assumes "rooms_within cfg (rooms s)"
  shows "rooms_within cfg (rooms (fst (leave_each c rs s)))"
  using assms
proof (induction rs arbitrary: s)
  case Nil
  then show ?case by simp
next
  case (Cons r rs)
  show ?case
  proof (cases "r = c")
    case True
    with Cons show ?thesis by simp
  next
    case False
    have "rooms_within cfg (rooms (fst (handleLeave c r s)))"
      using Cons.prems by (rule handleLeave_within)
    from Cons.IH [OF this] show ?thesis
      using False by (simp add: split_beta)
  qed
qed

lemma disconnect_within:
  assumes "rooms_within cfg (rooms s)"
  shows "rooms_within cfg (rooms (fst (disconnect c s)))"
  using leave_each_within [OF assms]
  by (simp add: disconnect_def split_beta Let_def)

lemma handle_within:
  assumes "1 \<le> maxRoomParticipants cfg" "rooms_within cfg (rooms s)"
  shows "rooms_within cfg (rooms (fst (handle cfg e s)))"
proof (cases e)
  case (CreateRoom c r l)
  with assms show ?thesis by (simp add: createRoom_within)
next
  case (Join c r opts)
  with assms show ?thesis by (simp add: join_within)
next
  case (Leave c r)
  with assms show ?thesis by (simp add: leave_within)
next
  case (Signal k c pl r)
  with assms show ?thesis by (simp add: on_signal_def)
next
  case (Transcript c m now)
  with assms show ?thesis by (simp add: on_transcript_def Let_def)
next
  case (Disconnect c)
  with assms show ?thesis by (simp add: disconnect_within)
qed

lemma run_within:
  assumes "1 \<le> maxRoomParticipants cfg" "rooms_within cfg (rooms s)"
  shows "rooms_within cfg (rooms (run cfg es s))"
  using assms(2)
proof (induction es arbitrary: s)
  case Nil
  then show ?case by simp
next
  case (Cons e es)
  from Cons.IH [OF handle_within [OF assms(1) Cons.prems]] show ?case by simp
qed

lemma reachable_within:
  assumes "1 \<le> maxRoomParticipants cfg" "reachable cfg s"
  shows "rooms_within cfg (rooms s)"
proof -
  from assms(2) obtain es where "s = run cfg es initial_server"
    by (auto simp: reachable_def)
  moreover have "rooms_within cfg (rooms initial_server)"
    by (simp add: rooms_within_def initial_server_def)
  ultimately show ?thesis
    using run_within [OF assms(1)] by simp
qed

text \<open>No room has the empty string as its id, whatever the capacity is.\<close>

lemma ids_update:
  assumes "[] \<notin> fst ` set rs" "roomId \<noteq> []"
  shows "[] \<notin> fst ` set (AList.update roomId room rs)"
  using assms by (simp add: dom_update)

lemma ids_delete:
  assumes "[] \<notin> fst ` set rs"
  shows "[] \<notin> fst ` set (AList.delete roomId rs)"
  using assms dom_delete_subset [of roomId rs] by blast

lemma ids_lookup:
  assumes "[] \<notin> fst ` set rs" "map_of rs roomId = Some room"
  shows "roomId \<noteq> []"
  using assms map_of_SomeD [of rs roomId room] by force

lemma createRoom_ids:
  assumes "[] \<notin> fst ` set (rooms s)"
  shows "[] \<notin> fst ` set (rooms (fst (createRoom c r l s)))"
  using assms by (simp add: createRoom_def ids_update)

lemma join_ids:
  assumes "[] \<notin> fst ` set (rooms s)"
  shows "[] \<notin> fst ` set (rooms (fst (join cfg c r opts s)))"
  using assms by (simp add: join_def Let_def ids_update split: option.splits)

lemma handleLeave_ids:
  assumes "[] \<notin> fst ` set (rooms s)"
  shows "[] \<notin> fst ` set (rooms (fst (handleLeave c r s)))"
proof (cases "map_of (rooms s) r")
  case None
  with assms show ?thesis by (simp add: handleLeave_def)
next
  case (Some room)
  from ids_lookup [OF assms Some] have "r \<noteq> []" .
  with assms Some show ?thesis
    by (simp add: handleLeave_def Let_def ids_update ids_delete)
qed

lemma leave_ids:
  assumes "[] \<notin> fst ` set (rooms s)"
  shows "[] \<notin> fst ` set (rooms (fst (leave c r s)))"
proof -
  obtain s1 out where h: "handleLeave c r s = (s1, out)"
    by (cases "handleLeave c r s")
  with handleLeave_ids [OF assms, of c r] have "[] \<notin> fst ` set (rooms s1)"
    by simp
  then show ?thesis
    by (simp add: leave_def h Let_def ids_delete split: option.splits)
qed

lemma leave_each_ids:
  assumes "[] \<notin> fst ` set (rooms s)"
  shows "[] \<notin> fst ` set (rooms (fst (leave_each c rs s)))"
  using assms
proof (induction rs arbitrary: s)
  case Nil
  then show ?case by simp
next
  case (Cons r rs)
  show ?case
  proof (cases "r = c")
    case True
    with Cons show ?thesis by simp
  next
    case False
    have "[] \<notin> fst ` set (rooms (fst (handleLeave c r s)))"
      using Cons.prems by (rule handleLeave_ids)
    from Cons.IH [OF this] show ?thesis
      using False by (simp add: split_beta)
  qed
qed

lemma handle_ids:
  assumes "[] \<notin> fst ` set (rooms s)"
  shows "[] \<notin> fst ` set (rooms (fst (handle cfg e s)))"
proof (cases e)
  case (CreateRoom c r l)
  with assms show ?thesis by (simp add: createRoom_ids)
next
  case (Join c r opts)
  with assms show ?thesis by (simp add: join_ids)
next
  case (Leave c r)
  with assms show ?thesis by (simp add: leave_ids)
next
  case (Signal k c pl r)
  with assms show ?thesis by (simp add: on_signal_def)
next
  case (Transcript c m now)
  with assms show ?thesis by (simp add: on_transcript_def Let_def)
next
  case (Disconnect c)
  with leave_each_ids [OF assms] show ?thesis
    by (simp add: disconnect_def split_beta Let_def)
qed

lemma reachable_ids:
  assumes "reachable cfg s"
  shows "[] \<notin> fst ` set (rooms s)"
proof -
  have "[] \<notin> fst ` set (rooms (run cfg es s0))" if "[] \<notin> fst ` set (rooms s0)" for es s0
    using that
  proof (induction es arbitrary: s0)
    case Nil
    then show ?case by simp
  next
    case (Cons e es)
    from Cons.IH [OF handle_ids [OF Cons.prems]] show ?case by simp
  qed
  moreover have "[] \<notin> fst ` set (rooms initial_server)"
    by (simp add: initial_server_def)
  ultimately show ?thesis
    using assms by (auto simp: reachable_def)
qed

lemma join_full:
  assumes "map_of (rooms s) roomId = Some room" "roomId \<noteq> []"
    and "maxRoomParticipants cfg \<le> int (length (participants room))"
  shows "join cfg socketId roomId opts s = (s, [SocketEmit socketId ''full'' (Text roomId)])"
  using assms by (simp add: join_def)

lemma paired_server_eq:
  "paired_server =
     \<lparr> rooms = [(''r1'', \<lparr>participants = [''alice'', ''bob''], isPublic = True, lang = None\<rparr>)],
       transcripts = [],
       channels = [(''alice'', ''r1''), (''bob'', ''r1'')],
       transcriptFiles = [] \<rparr>"
  by code_simp

lemma capacity_positive:
  assumes "case v of None \<Rightarrow> True
           | Some n \<Rightarrow> (case parseInt n of None \<Rightarrow> True | Some i \<Rightarrow> 0 \<le> i)"
  shows "1 \<le> maxRoomParticipants (config_of_env m v)"
  using assms by (auto simp: config_of_env_def env_int_def split: option.splits)

text \<open>
  C1, as the code has it. In every state the server can reach: when the capacity is
  at least one, no room has more participants than the capacity; and, whatever the
  capacity is, a join of a room whose participants are as many as the capacity or
  more sends \<open>full\<close> to the socket and leaves the whole state, and so the
  participants, the visibility and the language of the room, as it was. The capacity
  is at least one when the variable of the environment is unset or parses to a
  number that is not negative (\<open>capacity_positive\<close>).
\<close>

theorem participants_within_capacity:
  assumes "reachable cfg s"
  shows "(1 \<le> maxRoomParticipants cfg \<longrightarrow>
            (\<forall>(roomId, room) \<in> set (rooms s).
               int (length (participants room)) \<le> maxRoomParticipants cfg)) \<and>
         (\<forall>socketId roomId opts room.
            map_of (rooms s) roomId = Some room \<and>
            maxRoomParticipants cfg \<le> int (length (participants room)) \<longrightarrow>
            join cfg socketId roomId opts s = (s, [SocketEmit socketId ''full'' (Text roomId)]))"
proof -
  have "\<forall>(roomId, room) \<in> set (rooms s).
            int (length (participants room)) \<le> maxRoomParticipants cfg"
    if "1 \<le> maxRoomParticipants cfg"
    using reachable_within [OF that assms] by (auto simp: rooms_within_def)
  moreover have "join cfg socketId roomId opts s = (s, [SocketEmit socketId ''full'' (Text roomId)])"
    if "map_of (rooms s) roomId = Some room"
      and "maxRoomParticipants cfg \<le> int (length (participants room))"
    for socketId roomId opts room
    using that ids_lookup [OF reachable_ids [OF assms] that(1)] by (simp add: join_full)
  ultimately show ?thesis by blast
qed

theorem participants_within_capacity_witness:
  "reachable demo_config paired_server \<and> 1 \<le> maxRoomParticipants demo_config \<and>
   list_all (\<lambda>(roomId, room). int (length (participants room)) \<le> 2) (rooms paired_server) \<and>
   map_of (rooms paired_server) ''r1'' =
     Some \<lparr>participants = [''alice'', ''bob''], isPublic = True, lang = None\<rparr> \<and>
   join demo_config ''carol'' ''r1'' joiner_opts paired_server =
     (paired_server, [SocketEmit ''carol'' ''full'' (Text ''r1'')])"
proof -
  have c: "1 \<le> maxRoomParticipants demo_config"
    by (simp add: demo_config_simps)
  have r: "reachable demo_config paired_server"
    unfolding reachable_def paired_server_def by blast
  have m: "map_of (rooms paired_server) ''r1'' =
     Some \<lparr>participants = [''alice'', ''bob''], isPublic = True, lang = None\<rparr>"
    by (simp add: paired_server_eq)
  have "maxRoomParticipants demo_config \<le>
          int (length (participants \<lparr>participants = [''alice'', ''bob''], isPublic = True, lang = None\<rparr>))"
    by (simp add: demo_config_simps)
  with participants_within_capacity [OF r] m
  have j: "join demo_config ''carol'' ''r1'' joiner_opts paired_server =
     (paired_server, [SocketEmit ''carol'' ''full'' (Text ''r1'')])"
    by blast
  from participants_within_capacity [OF r] c
  have "\<forall>(roomId, room) \<in> set (rooms paired_server).
          int (length (participants room)) \<le> maxRoomParticipants demo_config"
    by blast
  then have a: "list_all (\<lambda>(roomId, room). int (length (participants room)) \<le> 2) (rooms paired_server)"
    by (simp add: demo_config_simps list_all_iff)
  from c r m j a show ?thesis by blast
qed

text \<open>
  C1 as stated fails for a capacity below one. \<open>parseInt(...) || 2\<close> keeps a negative
  number: with \<open>MAX_ROOM_PARTICIPANTS=-3\<close> the capacity is \<open>-3\<close>, and the join of a
  creator makes a room of one participant.
\<close>

theorem negative_capacity_exceeded:
  "maxRoomParticipants (config_of_env None (Some ''-3'')) = - 3 \<and>
   rooms (run (config_of_env None (Some ''-3'')) [Join ''alice'' ''r1'' creator_opts] initial_server) =
     [(''r1'', \<lparr>participants = [''alice''], isPublic = True, lang = None\<rparr>)] \<and>
   \<not> int (length [''alice'']) \<le> maxRoomParticipants (config_of_env None (Some ''-3''))"
  by code_simp


lemma eavesdrop_server_eq:
  "eavesdrop_server =
     \<lparr> rooms = [(''r1'', \<lparr>participants = [''alice'', ''bob''], isPublic = True, lang = None\<rparr>),
                (''bob'', \<lparr>participants = [''mallory''], isPublic = True, lang = None\<rparr>)],
       transcripts = [],
       channels = [(''alice'', ''r1''), (''bob'', ''r1''), (''mallory'', ''bob'')],
       transcriptFiles = [] \<rparr>"
  by code_simp




lemma leave_fixed_absent:
  assumes "map_of (rooms s) r = None" "r \<notin> fst ` set (transcripts s)"
  shows "leave c r s = (s, [emitActiveMeetings s])"
proof -
  have "r \<notin> fst ` set (rooms s)"
    using assms(1) by (simp add: map_of_eq_None_iff)
  then show ?thesis
    using assms by (simp add: leave_def handleLeave_def)
qed

lemma leave_fixed_present:
  assumes "map_of (rooms s) r = Some room" "c \<notin> set (participants room)" "participants room \<noteq> []"
  shows "leave c r s = (s, [SocketTo c r ''user-disconnected'' NoPayload, emitActiveMeetings s])"
proof -
  have f: "filter (\<lambda>p. p \<noteq> c) (participants room) = participants room"
    using assms(2) by (auto simp: filter_id_conv)
  have u: "AList.update r room (rooms s) = rooms s"
    using assms(1) by (rule update_triv)
  show ?thesis
    using assms by (simp add: leave_def handleLeave_def f u Let_def)
qed

lemma leave_post:
  "(map_of (rooms (fst (leave c r s))) r = None \<and> r \<notin> fst ` set (transcripts (fst (leave c r s)))) \<or>
   (\<exists>room. map_of (rooms (fst (leave c r s))) r = Some room \<and> c \<notin> set (participants room) \<and>
      participants room \<noteq> [])"
proof (cases "map_of (rooms s) r")
  case None
  then have "r \<notin> fst ` set (rooms s)"
    by (simp add: map_of_eq_None_iff)
  with None show ?thesis
    by (simp add: leave_def handleLeave_def Let_def delete_notin_dom)
next
  case (Some room)
  show ?thesis
  proof (cases "filter (\<lambda>p. p \<noteq> c) (participants room) = []")
    case True
    with Some show ?thesis
      by (simp add: leave_def handleLeave_def Let_def delete_conv' delete_notin_dom delete_idem)
  next
    case False
    with Some show ?thesis
      by (simp add: leave_def handleLeave_def Let_def update_conv')
  qed
qed

text \<open>
  C7, as the code has it. A second \<open>leave\<close> of the same socket and room changes
  nothing in the state: the rooms, the transcript buffers, the transcripts written
  and the channels are those after the first. It sends again: \<open>user-disconnected\<close>
  to the channel of the room when the room is still there, and the active meetings
  to all.
\<close>

theorem leave_twice:
  "fst (leave c r (fst (leave c r s))) = fst (leave c r s) \<and>
   snd (leave c r (fst (leave c r s))) =
     (if map_of (rooms (fst (leave c r s))) r = None then []
      else [SocketTo c r ''user-disconnected'' NoPayload]) @
     [emitActiveMeetings (fst (leave c r s))]"
  using leave_post [of c r s]
  by (auto simp: leave_fixed_absent leave_fixed_present)

text \<open>
  C7 as stated fails on the notifications. Alice and Bob are in room \<open>r1\<close>; Alice
  leaves twice. Each \<open>leave\<close> sends \<open>user-disconnected\<close> to the channel of the room,
  where Bob is the receiver: Bob is told twice that his peer has left.
\<close>

theorem leave_twice_notifies_twice:
  "snd (leave ''alice'' ''r1'' paired_server) =
     [SocketTo ''alice'' ''r1'' ''user-disconnected'' NoPayload,
      IoEmit ''active-meetings'' (Meetings [(''r1'', 1)])] \<and>
   snd (leave ''alice'' ''r1'' (fst (leave ''alice'' ''r1'' paired_server))) =
     [SocketTo ''alice'' ''r1'' ''user-disconnected'' NoPayload,
      IoEmit ''active-meetings'' (Meetings [(''r1'', 1)])] \<and>
   broadcast_receivers (fst (leave ''alice'' ''r1'' paired_server)) ''alice'' ''r1'' = [''bob'']"
  by code_simp


section \<open>The dictionary post-processor: properties\<close>









text \<open>
  The leftmost match is replaced first: the text before it is kept, and the
  replacement goes on behind the match.
\<close>

lemma replace_all_leftmost:
  assumes "w \<noteq> []" "b \<noteq> []" "m (rev a @ pre) b"
    and "\<forall>a1 a2. a = a1 @ a2 \<and> a2 \<noteq> [] \<longrightarrow> \<not> m (rev a1 @ pre) (a2 @ b)"
  shows "replace_all m w en pre (a @ b) =
           a @ get_substitution (take (length w) b) (rev pre @ a) (drop (length w) b) en @
           replace_all m w en (rev (take (length w) b) @ rev a @ pre) (drop (length w) b)"
  using assms(3,4)
proof (induction a arbitrary: pre)
  case Nil
  obtain c cs where b: "b = c # cs" using assms(2) by (cases b) auto
  have "drop (length w - Suc 0) cs = drop (length w) (c # cs)"
    using assms(1) by (cases w) simp_all
  with Nil(1) assms(1) show ?case by (simp add: b)
next
  case (Cons x a)
  have "\<not> m pre ((x # a) @ b)"
    using Cons.prems(2) [rule_format, of "[]" "x # a"] by simp
  moreover have "m (rev a @ x # pre) b"
    using Cons.prems(1) by simp
  moreover have "\<forall>a1 a2. a = a1 @ a2 \<and> a2 \<noteq> [] \<longrightarrow> \<not> m (rev a1 @ x # pre) (a2 @ b)"
  proof (intro allI impI)
    fix a1 a2
    assume "a = a1 @ a2 \<and> a2 \<noteq> []"
    then have "x # a = (x # a1) @ a2 \<and> a2 \<noteq> []" by simp
    from Cons.prems(2) [rule_format, OF this] show "\<not> m (rev a1 @ x # pre) (a2 @ b)" by simp
  qed
  ultimately show ?case
    using Cons.IH [of "x # pre"] by simp
qed



























lemma template_expanded:
  "applyWordReplacements [[''de'' \<mapsto> JString ''Auto'', ''en'' \<mapsto> JString ''$&mobile'']]
     ''Das Auto'' ''de'' = ''Das Automobile''"
  by code_simp





end
